theory Spec2Isabelle
  imports Complex_Main
begin

section \<open>Errors\<close>

text \<open>
  Exceptions and rejected promises of the source are values. \<open>TypeError\<close> is the
  runtime's error for reading a property of \<open>undefined\<close>; \<open>PlayerError\<close> is the
  library's own error with its status code; \<open>Rejected\<close> is a rejection that
  comes out of an external collaborator (the platform, a registered extractor, a
  network library).
\<close>

datatype ErrorStatusCode = INVALID_ARG_TYPE | UNKNOWN_EXTRACTOR | INVALID_EXTRACTOR

datatype error =
    TypeError string
  | PlayerError string ErrorStatusCode
  | Rejected string

section \<open>VoiceInterface/VoiceUtils.ts\<close>

text \<open>
  The voice connection is the value the platform's \<open>channel.call\<close> resolves to.
\<close>

datatype VoiceConnection = VoiceConnection nat

text \<open>
  Modelled from the spec: the class \<open>StreamDispatcher\<close>, whose file is not among
  the sources. The spec's Dispatcher is the single owner of one live transport
  connection. The object is its identity \<open>dispatcher_id\<close> (two
  \<open>new StreamDispatcher(...)\<close> give two different objects) and the two arguments
  that \<open>connect\<close> gives to the constructor.
\<close>

record StreamDispatcher =
  dispatcher_id :: nat
  voiceConnection :: VoiceConnection
  connectionTimeout :: "nat option"

text \<open>The optional \<open>options\<close> object of \<open>connect\<close> and \<open>join\<close>; both fields are optional.\<close>

record join_options =
  deaf :: "bool option"
  maxTime :: "nat option"

text \<open>
  A \<open>DMChannel\<close>: its id and its \<open>call\<close> method, which asks the platform for a
  transport connection with the given \<open>selfDeaf\<close> flag and either rejects with a
  reason or resolves to a connection.
\<close>

record DMChannel =
  channel_id :: string
  call :: "bool \<Rightarrow> string + VoiceConnection"

text \<open>
  The state of a \<open>VoiceUtils\<close> object is its \<open>cache\<close>. Two more fields make
  effects observable: \<open>requested\<close> logs every \<open>channel.call\<close> that was made
  (channel id and \<open>selfDeaf\<close>), \<open>next_dispatcher\<close> is the identity the next
  constructed dispatcher gets.
\<close>

record VoiceUtils =
  cache :: "string \<rightharpoonup> StreamDispatcher"
  requested :: "(string \<times> bool) list"
  next_dispatcher :: nat

definition Boolean_opt :: "bool option \<Rightarrow> bool" where
  "Boolean_opt b = (case b of None \<Rightarrow> False | Some v \<Rightarrow> v)"

definition undefined_deaf :: string where
  "undefined_deaf = ''Cannot read properties of undefined (reading deaf)''"

definition undefined_maxTime :: string where
  "undefined_maxTime = ''Cannot read properties of undefined (reading maxTime)''"

text \<open>
  \<open>join\<close>: the argument \<open>{ selfDeaf: Boolean(options.deaf) }\<close> is evaluated before
  \<open>channel.call\<close> is entered, so an omitted \<open>options\<close> throws there.
\<close>

definition join :: "DMChannel \<Rightarrow> join_options option \<Rightarrow> VoiceUtils
    \<Rightarrow> (error + VoiceConnection) \<times> VoiceUtils" where
  "join channel options' vu =
     (case options' of
        None \<Rightarrow> (Inl (TypeError undefined_deaf), vu)
      | Some opts \<Rightarrow>
          (let selfDeaf = Boolean_opt (deaf opts);
               vu' = vu\<lparr>requested := requested vu @ [(channel_id channel, selfDeaf)]\<rparr>
           in case call channel selfDeaf of
                Inl reason \<Rightarrow> (Inl (Rejected reason), vu')
              | Inr conn \<Rightarrow> (Inr conn, vu')))"

text \<open>
  \<open>connect\<close>: awaits \<open>join\<close>, constructs a dispatcher around the connection,
  stores it under the channel id and returns it. There is no lookup of the cache
  before the join.
\<close>

definition connect :: "DMChannel \<Rightarrow> join_options option \<Rightarrow> VoiceUtils
    \<Rightarrow> (error + StreamDispatcher) \<times> VoiceUtils" where
  "connect channel options' vu =
     (case join channel options' vu of
        (Inl e, vu') \<Rightarrow> (Inl e, vu')
      | (Inr conn, vu') \<Rightarrow>
          (case options' of
             None \<Rightarrow> (Inl (TypeError undefined_maxTime), vu')
           | Some opts \<Rightarrow>
               (let sub = \<lparr>dispatcher_id = next_dispatcher vu',
                           voiceConnection = conn,
                           connectionTimeout = maxTime opts\<rparr>
                in (Inr sub,
                    vu'\<lparr>cache := (cache vu')(channel_id channel \<mapsto> sub),
                        next_dispatcher := Suc (next_dispatcher vu')\<rparr>))))"

definition getConnection :: "string \<Rightarrow> VoiceUtils \<Rightarrow> StreamDispatcher option" where
  "getConnection guild vu = cache vu guild"

text \<open>A channel whose platform always resolves, and a cache that already holds a dispatcher for it.\<close>

definition channel_A :: DMChannel where
  "channel_A = \<lparr>channel_id = ''A'', call = (\<lambda>selfDeaf. Inr (VoiceConnection 7))\<rparr>"

definition dispatcher_0 :: StreamDispatcher where
  "dispatcher_0 = \<lparr>dispatcher_id = 0, voiceConnection = VoiceConnection 3,
                    connectionTimeout = None\<rparr>"

definition utils_joined :: VoiceUtils where
  "utils_joined = \<lparr>cache = [''A'' \<mapsto> dispatcher_0], requested = [(''A'', False)],
                    next_dispatcher = 1\<rparr>"

definition options_plain :: join_options where
  "options_plain = \<lparr>deaf = None, maxTime = None\<rparr>"


section \<open>Structures/Track.ts: escaping markdown\<close>

text \<open>
  A string of the program is a list of code units; a \<open>char\<close> stands for one code
  unit. The patterns below look only at the backtick, the backslash and the
  marker characters, written by their codes where the notation needs it.
\<close>

abbreviation bq :: char where "bq \<equiv> CHR 0x60"
abbreviation bsl :: char where "bsl \<equiv> CHR 0x5C"

subsection \<open>\<open>String.prototype.replace\<close> with a global pattern, \<open>split\<close> and \<open>join\<close>\<close>

text \<open>
  A global \<open>replace\<close> walks the text from the left. At each position the pattern
  is tried; a matcher stands for the pattern together with its replacement: given
  the code unit before the position (\<open>None\<close> at the start of the text, which is
  all a lookbehind of one unit can see), the rest of the text and the state of
  the callback's counter, it returns the length of the match, the replacement
  and the new counter, or \<open>None\<close> when the pattern does not match there. After a
  match of positive length the search goes on behind it; after an empty match the
  next code unit is copied and the search goes on one unit further; without a
  match the code unit is copied.
\<close>

type_synonym 's matcher = "char option \<Rightarrow> string \<Rightarrow> 's \<Rightarrow> (nat \<times> string \<times> 's) option"

function replace_g :: "'s matcher \<Rightarrow> char option \<Rightarrow> string \<Rightarrow> 's \<Rightarrow> string" where
  "replace_g m prev rest st =
     (case m prev rest st of
        Some (n, out, st') \<Rightarrow>
          (if 0 < n \<and> n \<le> length rest
           then out @ replace_g m (Some (last (take n rest))) (drop n rest) st'
           else out @ (case rest of [] \<Rightarrow> [] | c # cs \<Rightarrow> c # replace_g m (Some c) cs st'))
      | None \<Rightarrow> (case rest of [] \<Rightarrow> [] | c # cs \<Rightarrow> c # replace_g m (Some c) cs st))"
  by pat_completeness auto
termination
  by (relation "measure (\<lambda>(m, prev, rest, st). length rest)") auto

declare replace_g.simps [simp del]

text \<open>
  \<open>split\<close> walks the text the same way; the separator is tried at every position
  but the end of the text, and a separator of this file never matches the empty
  string. \<open>cur\<close> is the piece being collected.
\<close>

function split_g :: "(char option \<Rightarrow> string \<Rightarrow> nat option) \<Rightarrow> char option \<Rightarrow> string \<Rightarrow> string
    \<Rightarrow> string list" where
  "split_g m prev rest cur =
     (case rest of
        [] \<Rightarrow> [cur]
      | c # cs \<Rightarrow>
          (case m prev rest of
             Some n \<Rightarrow>
               (if 0 < n \<and> n \<le> length rest
                then cur # split_g m (Some (last (take n rest))) (drop n rest) []
                else split_g m (Some c) cs (cur @ [c]))
           | None \<Rightarrow> split_g m (Some c) cs (cur @ [c])))"
  by pat_completeness auto
termination
  by (relation "measure (\<lambda>(m, prev, rest, cur). length rest)") auto

declare split_g.simps [simp del]

text \<open>\<open>text.split(sep)\<close> for a non-empty string \<open>sep\<close>.\<close>

definition split_str :: "string \<Rightarrow> string \<Rightarrow> string list" where
  "split_str sep text =
     split_g (\<lambda>prev rest. if take (length sep) rest = sep then Some (length sep) else None)
       None text []"

text \<open>\<open>pieces.join(sep)\<close>.\<close>

fun join_str :: "string \<Rightarrow> string list \<Rightarrow> string" where
  "join_str sep [] = []"
| "join_str sep [x] = x"
| "join_str sep (x # y # ys) = x @ sep @ join_str sep (y # ys)"

subsection \<open>The patterns of the escape functions\<close>

text \<open>\<open>/```/g\<close> replaced by \<open>\`\`\`\<close>.\<close>

definition m_codeBlock :: "unit matcher" where
  "m_codeBlock prev rest st =
     (if take 3 rest = [bq, bq, bq] then Some (3, [bsl, bq, bsl, bq, bsl, bq], st) else None)"

definition escapeCodeBlock :: "string \<Rightarrow> string" where
  "escapeCodeBlock text = replace_g m_codeBlock None text ()"

text \<open>
  \<open>/(?<=^|[^`])``?(?=[^`]|$)/g\<close>: one or two backticks, not after a backtick and not
  before one. The optional second backtick is taken first; if the lookahead then
  fails the pattern retries with one backtick, whose lookahead sees the second
  backtick and fails too.
\<close>

definition m_inlineCode :: "unit matcher" where
  "m_inlineCode prev rest st =
     (if prev = Some bq then None
      else case rest of
        [] \<Rightarrow> None
      | c1 # r1 \<Rightarrow>
          if c1 \<noteq> bq then None
          else (case r1 of
                  [] \<Rightarrow> Some (1, [bsl, bq], st)
                | c2 # r2 \<Rightarrow>
                    if c2 \<noteq> bq then Some (1, [bsl, bq], st)
                    else (case r2 of
                            [] \<Rightarrow> Some (2, [bsl, bq, bsl, bq], st)
                          | c3 # r3 \<Rightarrow>
                              if c3 \<noteq> bq then Some (2, [bsl, bq, bsl, bq], st) else None)))"

definition escapeInlineCode :: "string \<Rightarrow> string" where
  "escapeInlineCode text = replace_g m_inlineCode None text ()"

text \<open>
  \<open>/(?<=^|[^*])\*([^*]|\*\*|$)/g\<close> and the same with \<open>_\<close>, for a marker \<open>ch\<close>:
  a marker not after a marker, followed by the group, whose alternatives are tried
  in this order: one code unit that is not the marker, two markers, the end of the
  text. The callback counts the matches whose group is two markers (\<open>++i\<close>) and
  puts the escaped marker before the group for an odd count and behind it for an
  even one; for the other groups the escaped marker comes first.
\<close>

definition m_italic :: "char \<Rightarrow> nat matcher" where
  "m_italic ch prev rest i =
     (if prev = Some ch then None
      else case rest of
        [] \<Rightarrow> None
      | c1 # r1 \<Rightarrow>
          if c1 \<noteq> ch then None
          else (case r1 of
                  [] \<Rightarrow> Some (1, [bsl, ch], i)
                | c2 # r2 \<Rightarrow>
                    if c2 \<noteq> ch then Some (2, [bsl, ch, c2], i)
                    else (case r2 of
                            [] \<Rightarrow> None
                          | c3 # r3 \<Rightarrow>
                              if c3 = ch
                              then (if Suc i mod 2 = 1
                                    then Some (3, [bsl, ch, ch, ch], Suc i)
                                    else Some (3, [ch, ch, bsl, ch], Suc i))
                              else None)))"

definition escapeItalic :: "string \<Rightarrow> string" where
  "escapeItalic text =
     (let text1 = replace_g (m_italic (CHR ''*'')) None text 0
      in replace_g (m_italic (CHR ''_'')) None text1 0)"

text \<open>
  \<open>/\*\*(\*)?/g\<close> and \<open>/__(_)?/g\<close>: two markers and a third if there is one. With
  the third the callback counts (\<open>++i\<close>) and puts it before the escaped pair for an
  odd count and behind it for an even one.
\<close>

definition m_bold :: "char \<Rightarrow> nat matcher" where
  "m_bold ch prev rest i =
     (case rest of
        c1 # c2 # r2 \<Rightarrow>
          if c1 = ch \<and> c2 = ch
          then (case r2 of
                  [] \<Rightarrow> Some (2, [bsl, ch, bsl, ch], i)
                | c3 # r3 \<Rightarrow>
                    if c3 = ch
                    then (if Suc i mod 2 = 1
                          then Some (3, [ch, bsl, ch, bsl, ch], Suc i)
                          else Some (3, [bsl, ch, bsl, ch, ch], Suc i))
                    else Some (2, [bsl, ch, bsl, ch], i))
          else None
      | _ \<Rightarrow> None)"

definition escapeBold :: "string \<Rightarrow> string" where
  "escapeBold text = replace_g (m_bold (CHR ''*'')) None text 0"

definition escapeUnderline :: "string \<Rightarrow> string" where
  "escapeUnderline text = replace_g (m_bold (CHR ''_'')) None text 0"

text \<open>\<open>new RegExp('~~', "g")\<close> replaced by \<open>\~\~\<close>.\<close>

definition m_strikethrough :: "unit matcher" where
  "m_strikethrough prev rest st =
     (if take 2 rest = ''~~'' then Some (2, [bsl, CHR ''~'', bsl, CHR ''~''], st) else None)"

definition escapeStrikethrough :: "string \<Rightarrow> string" where
  "escapeStrikethrough text = replace_g m_strikethrough None text ()"

text \<open>
  \<open>new RegExp('||', "g")\<close>: in a pattern source \<open>|\<close> separates alternatives, so this
  pattern is three empty alternatives and matches the empty string at every
  position of the text, the end included.
\<close>

definition m_spoiler :: "unit matcher" where
  "m_spoiler prev rest st = Some (0, [bsl, CHR ''|'', bsl, CHR ''|''], st)"

definition escapeSpoiler :: "string \<Rightarrow> string" where
  "escapeSpoiler text = replace_g m_spoiler None text ()"

text \<open>
  The separator \<open>/(?<=^|[^`])`(?=[^`]|$)/g\<close> of the second \<open>split\<close>: a backtick that
  stands alone.
\<close>

definition m_single_backtick :: "char option \<Rightarrow> string \<Rightarrow> nat option" where
  "m_single_backtick prev rest =
     (if prev = Some bq then None
      else case rest of
        [] \<Rightarrow> None
      | c1 # r1 \<Rightarrow>
          if c1 \<noteq> bq then None
          else (case r1 of [] \<Rightarrow> Some 1 | c2 # r2 \<Rightarrow> if c2 \<noteq> bq then Some 1 else None))"

subsection \<open>\<open>escapeMarkdown\<close>\<close>

text \<open>Every option is optional and defaults to \<open>true\<close>.\<close>

record EscapeMarkdownOptions =
  codeBlock :: "bool option"
  inlineCode :: "bool option"
  bold :: "bool option"
  italic :: "bool option"
  underline :: "bool option"
  strikethrough :: "bool option"
  spoiler :: "bool option"
  inlineCodeContent :: "bool option"
  codeBlockContent :: "bool option"

definition or_true :: "bool option \<Rightarrow> bool" where
  "or_true b = (case b of None \<Rightarrow> True | Some v \<Rightarrow> v)"

text \<open>
  The callback of \<open>map\<close> in both \<open>split\<close> branches: a piece at an odd index that is
  not the last piece is kept, every other piece is escaped by \<open>f\<close>.
\<close>

definition map_pieces :: "(string \<Rightarrow> string) \<Rightarrow> string list \<Rightarrow> string list" where
  "map_pieces f array =
     map (\<lambda>(index, subString).
            if index mod 2 = 1 \<and> Suc index \<noteq> length array then subString else f subString)
         (enumerate 0 array)"

lemma map_pieces_cong [fundef_cong]:
  "array = array' \<Longrightarrow> (\<And>x. x \<in> set array' \<Longrightarrow> f x = g x)
     \<Longrightarrow> map_pieces f array = map_pieces g array'"
  by (auto simp add: map_pieces_def enumerate_eq_zip dest: set_zip_rightD)

text \<open>
  The recursive calls leave out \<open>codeBlockContent\<close> (both) and \<open>codeBlock\<close> (the
  first) or \<open>inlineCode\<close> and \<open>inlineCodeContent\<close> (the second), which then take
  their default.
\<close>

function escapeMarkdown :: "string \<Rightarrow> EscapeMarkdownOptions \<Rightarrow> string" where
  "escapeMarkdown text opts =
     (if \<not> or_true (codeBlockContent opts)
      then join_str (if or_true (codeBlock opts) then [bsl, bq, bsl, bq, bsl, bq] else [bq, bq, bq])
             (map_pieces
                (\<lambda>subString. escapeMarkdown subString
                   \<lparr>codeBlock = None,
                    inlineCode = Some (or_true (inlineCode opts)),
                    bold = Some (or_true (bold opts)),
                    italic = Some (or_true (italic opts)),
                    underline = Some (or_true (underline opts)),
                    strikethrough = Some (or_true (strikethrough opts)),
                    spoiler = Some (or_true (spoiler opts)),
                    inlineCodeContent = Some (or_true (inlineCodeContent opts)),
                    codeBlockContent = None\<rparr>)
                (split_str [bq, bq, bq] text))
      else if \<not> or_true (inlineCodeContent opts)
      then join_str (if or_true (inlineCode opts) then [bsl, bq] else [bq])
             (map_pieces
                (\<lambda>subString. escapeMarkdown subString
                   \<lparr>codeBlock = Some (or_true (codeBlock opts)),
                    inlineCode = None,
                    bold = Some (or_true (bold opts)),
                    italic = Some (or_true (italic opts)),
                    underline = Some (or_true (underline opts)),
                    strikethrough = Some (or_true (strikethrough opts)),
                    spoiler = Some (or_true (spoiler opts)),
                    inlineCodeContent = None,
                    codeBlockContent = None\<rparr>)
                (split_g m_single_backtick None text []))
      else
        (let text1 = (if or_true (inlineCode opts) then escapeInlineCode text else text);
             text2 = (if or_true (codeBlock opts) then escapeCodeBlock text1 else text1);
             text3 = (if or_true (italic opts) then escapeItalic text2 else text2);
             text4 = (if or_true (bold opts) then escapeBold text3 else text3);
             text5 = (if or_true (underline opts) then escapeUnderline text4 else text4);
             text6 = (if or_true (strikethrough opts) then escapeStrikethrough text5 else text5);
             text7 = (if or_true (spoiler opts) then escapeSpoiler text6 else text6)
         in text7))"
  by pat_completeness auto
termination
  by (relation "measure (\<lambda>(text, opts).
        (if or_true (codeBlockContent opts) then 0 else 2)
        + (if or_true (inlineCodeContent opts) then 0 else 1))")
     (auto simp add: or_true_def)

declare escapeMarkdown.simps [simp del]

text \<open>\<open>escapeMarkdown(text)\<close>, the options left out.\<close>

definition no_options :: EscapeMarkdownOptions where
  "no_options = \<lparr>codeBlock = None, inlineCode = None, bold = None, italic = None,
     underline = None, strikethrough = None, spoiler = None, inlineCodeContent = None,
     codeBlockContent = None\<rparr>"


section \<open>Structures/Track.ts: the duration in milliseconds\<close>

text \<open>
  A number of the program is a double. The numbers of this file are whole
  numbers, so a number is \<open>NaN\<close>, an integer that a double holds, or one of the
  two infinities; the sign of a zero is left out, which no result here depends
  on. An operation gives the exact result rounded to the nearest double, a tie
  going to the even significand, and an infinity when the rounded magnitude
  reaches \<open>2^1024\<close>.
\<close>

datatype number = NaN | Finite int | PosInfinity | NegInfinity

function bit_length :: "nat \<Rightarrow> nat" where
  "bit_length n = (if n = 0 then 0 else Suc (bit_length (n div 2)))"
  by pat_completeness auto
termination
  by (relation "measure (\<lambda>n. n)") auto

declare bit_length.simps [simp del]

text \<open>A magnitude rounded to 53 significant bits.\<close>

definition round53 :: "nat \<Rightarrow> nat" where
  "round53 n =
     (if bit_length n \<le> 53 then n
      else (let sh = bit_length n - 53;
                q = n div 2 ^ sh;
                r = n mod 2 ^ sh;
                half = 2 ^ (sh - 1);
                q' = (if half < r \<or> (r = half \<and> odd q) then Suc q else q)
            in q' * 2 ^ sh))"

definition to_number :: "int \<Rightarrow> number" where
  "to_number x =
     (let m = round53 (nat \<bar>x\<bar>)
      in if 2 ^ 1024 \<le> m then (if x < 0 then NegInfinity else PosInfinity)
         else Finite (if x < 0 then - int m else int m))"

fun num_mul :: "number \<Rightarrow> number \<Rightarrow> number" where
  "num_mul NaN b = NaN"
| "num_mul a NaN = NaN"
| "num_mul (Finite x) (Finite y) = to_number (x * y)"
| "num_mul (Finite x) PosInfinity =
     (if x = 0 then NaN else if 0 < x then PosInfinity else NegInfinity)"
| "num_mul (Finite x) NegInfinity =
     (if x = 0 then NaN else if 0 < x then NegInfinity else PosInfinity)"
| "num_mul PosInfinity (Finite y) =
     (if y = 0 then NaN else if 0 < y then PosInfinity else NegInfinity)"
| "num_mul NegInfinity (Finite y) =
     (if y = 0 then NaN else if 0 < y then NegInfinity else PosInfinity)"
| "num_mul PosInfinity PosInfinity = PosInfinity"
| "num_mul PosInfinity NegInfinity = NegInfinity"
| "num_mul NegInfinity PosInfinity = NegInfinity"
| "num_mul NegInfinity NegInfinity = PosInfinity"


text \<open>\<open>x || 0\<close> for a number \<open>x\<close>: \<open>NaN\<close> and zero are falsy.\<close>

definition or_zero :: "number \<Rightarrow> number" where
  "or_zero x = (case x of NaN \<Rightarrow> Finite 0 | y \<Rightarrow> y)"

text \<open>
  \<open>parseInt(string)\<close> without a radix: white space is skipped, a sign is read, the
  prefix \<open>0x\<close> or \<open>0X\<close> selects radix 16, then the longest run of digits of the
  radix is the value, rounded to a double; without a digit the result is \<open>NaN\<close>.
  (Beyond 20 significant decimal digits the language leaves an implementation
  some freedom in the digits it reads; the model reads them all.)
\<close>

definition is_white_space :: "char \<Rightarrow> bool" where
  "is_white_space c =
     (let n = (of_char c :: nat)
      in n = 9 \<or> n = 10 \<or> n = 11 \<or> n = 12 \<or> n = 13 \<or> n = 32 \<or> n = 160)"

definition digit_value :: "char \<Rightarrow> nat option" where
  "digit_value c =
     (let n = (of_char c :: nat)
      in if 48 \<le> n \<and> n \<le> 57 then Some (n - 48)
         else if 97 \<le> n \<and> n \<le> 122 then Some (n - 87)
         else if 65 \<le> n \<and> n \<le> 90 then Some (n - 55)
         else None)"

definition is_digit_of :: "nat \<Rightarrow> char \<Rightarrow> bool" where
  "is_digit_of R c = (case digit_value c of None \<Rightarrow> False | Some d \<Rightarrow> d < R)"

definition digits_value :: "nat \<Rightarrow> string \<Rightarrow> nat" where
  "digits_value R Z = foldl (\<lambda>a c. a * R + (case digit_value c of None \<Rightarrow> 0 | Some d \<Rightarrow> d)) 0 Z"

definition parseInt :: "string \<Rightarrow> number" where
  "parseInt string =
     (let S = dropWhile is_white_space string;
          sign = (if take 1 S = ''-'' then - 1 else (1::int));
          S1 = (if take 1 S = ''+'' \<or> take 1 S = ''-'' then drop 1 S else S);
          hex = (take 2 S1 = ''0x'' \<or> take 2 S1 = ''0X'');
          R = (if hex then 16 else 10);
          S2 = (if hex then drop 2 S1 else S1);
          Z = takeWhile (is_digit_of R) S2
      in if Z = [] then NaN else to_number (sign * int (digits_value R Z)))"

text \<open>
  The local function \<open>times\<close> of \<open>durationMS\<close>: its loop multiplies \<open>tn\<close> by \<open>n\<close>,
  \<open>t\<close> times.
\<close>

function times_loop :: "number \<Rightarrow> nat \<Rightarrow> nat \<Rightarrow> number \<Rightarrow> number" where
  "times_loop n t i tn = (if i < t then times_loop n t (Suc i) (num_mul tn n) else tn)"
  by pat_completeness auto
termination
  by (relation "measure (\<lambda>(n, t, i, tn). t - i)") auto

declare times_loop.simps [simp del]

definition times :: "number \<Rightarrow> nat \<Rightarrow> number" where
  "times n t =
     (let tn = times_loop n t 0 (Finite 1)
      in if t \<le> 0 then Finite 1000 else num_mul tn (Finite 1000))"


subsection \<open>The formatter of durations\<close>






section \<open>Tracks, playlists and search results\<close>

text \<open>
  Modelled from the spec: the class \<open>Playlist\<close>, whose file is not among the
  sources. The spec's Playlist has a title, a description, a thumbnail, a type, a
  source tag, an author with a name and an optional link, an external id, a link
  and the sequence of its tracks. The record is the data that \<open>search\<close> gives to
  the constructor, without the track list. A playlist object is represented by
  this data: in every branch of \<open>search\<close> that constructs a playlist, the track
  sequence of the playlist is the \<open>tracks\<close> of the same result, and a track points
  back to its playlist by carrying the same data.
\<close>

record PlaylistInitData =
  pl_title :: "string option"
  pl_description :: "string option"
  pl_thumbnail :: "string option"
  pl_type :: "string option"
  pl_source :: "string option"
  pl_author_name :: "string option"
  pl_author_url :: "string option"
  pl_id :: "string option"
  pl_url :: "string option"

text \<open>
  The argument of the \<open>Track\<close> constructor. Every property may be missing. The
  items a registered extractor returns have the same shape with a number as
  \<open>duration\<close>, hence the parameter. \<open>data_raw_source\<close> is the own property
  \<open>source\<close> of the object \<open>data.raw\<close>: \<open>None\<close> without such an object or without
  the property, else the value of the property, which is \<open>None\<close> for \<open>null\<close> and
  \<open>undefined\<close>.
\<close>

record 'd RawTrackData =
  data_title :: "string option"
  data_description :: "string option"
  data_author :: "string option"
  data_url :: "string option"
  data_thumbnail :: "string option"
  data_duration :: 'd
  data_views :: "number option"
  data_requestedBy :: "string option"
  data_playlist :: "PlaylistInitData option"
  data_source :: "string option"
  data_raw_source :: "string option option"

text \<open>
  A \<open>Track\<close> after \<open>_patch\<close>. \<open>source\<close> is the getter \<open>this.raw.source ?? "arbitrary"\<close>.
  \<open>_patch\<close> builds \<open>raw\<close> with \<open>Object.assign\<close> from \<open>data.raw?.source ?? data.source\<close>
  and then from the own properties of \<open>data.raw ?? data\<close>, which overwrite it: a
  \<open>source\<close> of \<open>data.raw\<close> itself decides, also when it is \<open>null\<close> or \<open>undefined\<close>,
  and \<open>data.source\<close> counts only without one. The generated \<open>id\<close>
  comes from the platform library and is left out, as is \<open>description\<close>, which
  \<open>_patch\<close> never assigns.
\<close>

record Track =
  title :: string
  author :: string
  url :: string
  thumbnail :: string
  duration :: string
  views :: number
  requestedBy :: "string option"
  track_playlist :: "PlaylistInitData option"
  source :: string

definition or_else :: "'a option \<Rightarrow> 'a \<Rightarrow> 'a" where
  "or_else v d = (case v of None \<Rightarrow> d | Some x \<Rightarrow> x)"

definition or_opt :: "'a option \<Rightarrow> 'a option \<Rightarrow> 'a option" where
  "or_opt v d = (case v of None \<Rightarrow> d | Some x \<Rightarrow> Some x)"

definition new_Track :: "string option RawTrackData \<Rightarrow> Track" where
  "new_Track data =
     \<lparr>title = escapeMarkdown (or_else (data_title data) '''') no_options,
      author = or_else (data_author data) '''',
      url = or_else (data_url data) '''',
      thumbnail = or_else (data_thumbnail data) '''',
      duration = or_else (data_duration data) '''',
      views = or_else (data_views data) (Finite 0),
      requestedBy = data_requestedBy data,
      track_playlist = data_playlist data,
      source =
        or_else (case data_raw_source data of
                   None \<Rightarrow> data_source data
                 | Some own \<Rightarrow> own) ''arbitrary''\<rparr>"

record PlayerSearchResult =
  playlist :: "PlaylistInitData option"
  tracks :: "Track list"

definition no_result :: PlayerSearchResult where
  "no_result = \<lparr>playlist = None, tracks = []\<rparr>"

section \<open>Registered extractors\<close>

text \<open>
  Modelled from the spec: the class \<open>ExtractorModel\<close>, whose file is not among the
  sources. The spec gives a resolver two capabilities, \<open>matches(query) -> bool\<close>
  and \<open>resolve(query)\<close> with the items and an optional playlist; \<open>search\<close> calls
  them as \<open>validate\<close> and \<open>handle\<close>. \<open>handle\<close> is awaited: it rejects with a reason
  or resolves to \<open>null\<close> or to the data.
\<close>

record ExtractorModelData =
  ex_playlist :: "PlaylistInitData option"
  ex_data :: "number RawTrackData list"

record ExtractorModel =
  validate :: "string \<Rightarrow> bool"
  handle :: "string \<Rightarrow> string + ExtractorModelData option"

section \<open>The collaborators of \<open>search\<close>\<close>

text \<open>
  The members of \<open>QueryType\<close> that \<open>search\<close> names; \<open>OTHER_QUERY_TYPE\<close> stands for
  every other member, which the \<open>switch\<close> sends to its \<open>default\<close>. The option
  \<open>searchEngine\<close> is a member of \<open>QueryType\<close> or a string, the name of an extractor.
\<close>

datatype QueryType =
    AUTO
  | YOUTUBE_VIDEO
  | YOUTUBE_SEARCH
  | SOUNDCLOUD_TRACK
  | SOUNDCLOUD_SEARCH
  | SPOTIFY_SONG
  | SPOTIFY_PLAYLIST
  | SPOTIFY_ALBUM
  | SOUNDCLOUD_PLAYLIST
  | YOUTUBE_PLAYLIST
  | OTHER_QUERY_TYPE

datatype searchEngine = EngineType QueryType | EngineName string

text \<open>
  \<open>SearchOptions\<close>: \<open>searchEngine\<close> is \<open>None\<close> when the key is not in the object.
\<close>

record SearchOptions =
  opt_requestedBy :: "string option"
  opt_searchEngine :: "searchEngine option"
  opt_blockExtractor :: "bool option"

text \<open>
  The answers of the network libraries, with the properties \<open>search\<close> reads.
  \<open>info_source\<close> and \<open>v_source\<close> are the own property \<open>source\<close> of an answer that
  is handed to the track as its \<open>raw\<close>: \<open>None\<close> without the property, else its
  value.
\<close>

record ytdl_options =
  highWaterMark :: "nat option"

record videoInfo =
  vd_title :: "string option"
  vd_description :: "string option"
  vd_author_name :: "string option"
  vd_video_url :: "string option"
  vd_thumbnails :: "string option list"
  vd_viewCount :: string
  vd_lengthSeconds :: string
  info_source :: "string option option"

record yt_thumbnail =
  th_url :: "string option"
  th_maxresdefault :: "string option"

record yt_video =
  v_title :: "string option"
  v_description :: "string option"
  v_channel_name :: "string option"
  v_url :: "string option"
  v_thumbnail :: "yt_thumbnail option"
  v_views :: "number option"
  v_durationFormatted :: "string option"
  v_source :: "string option option"

record yt_playlist =
  ytp_title :: "string option"
  ytp_thumbnail :: "string option"
  ytp_channel_name :: "string option"
  ytp_channel_url :: "string option"
  ytp_id :: "string option"
  ytp_url :: "string option"
  ytp_videos :: "yt_video list"

record sc_song =
  sc_title :: "string option"
  sc_url :: "string option"
  sc_duration :: number
  sc_description :: "string option"
  sc_thumbnail :: "string option"
  sc_playCount :: "number option"
  sc_author_name :: "string option"
  sc_author_username :: "string option"

record sc_playlist =
  scp_title :: "string option"
  scp_description :: "string option"
  scp_thumbnail :: "string option"
  scp_author_name :: "string option"
  scp_author_username :: "string option"
  scp_author_profile :: "string option"
  scp_id :: string
  scp_url :: "string option"
  scp_tracks :: "sc_song list"

record spotify_artist =
  artist_name :: "string option"
  artist_url :: "string option"

text \<open>
  A Spotify track: the answer for a song, an item of an album, or the \<open>track\<close> of
  an item of a playlist. \<open>sp_album_images\<close> is \<open>None\<close> without an album, else the
  \<open>url\<close> of each image.
\<close>

record spotify_track =
  sp_name :: "string option"
  sp_description :: "string option"
  sp_artists :: "spotify_artist list option"
  sp_external_url :: "string option"
  sp_album_images :: "string option list option"
  sp_preview_url :: "string option"
  sp_duration_ms :: number

record spotify_list =
  spl_name :: "string option"
  spl_title :: "string option"
  spl_description :: "string option"
  spl_images :: "string option list"
  spl_type :: "string option"
  spl_artists :: "spotify_artist list option"
  spl_owner_display_name :: "string option"
  spl_owner_id :: "string option"
  spl_owner_url :: "string option"
  spl_id :: "string option"
  spl_external_url :: "string option"
  spl_items :: "spotify_track list"

text \<open>
  What \<open>search\<close> calls outside the sources. A promise that rejects is \<open>Inl\<close> with the
  reason; a promise that resolves to \<open>null\<close> or \<open>undefined\<close> is \<open>Inr None\<close>.
  \<open>timeCode\<close> is \<open>Util.buildTimeCode(Util.parseMS(n))\<close>, \<open>Util_last_url\<close> is
  \<open>Util.last(thumbnails)?.url\<close>, both of \<open>utils/Util\<close>; \<open>getData\<close> of the Spotify
  library is untyped, and is read as a track in the song branch and as a list in
  the playlist and album branch; \<open>ytpl_fetch\<close> gives the outcome of \<open>fetch\<close> and
  the playlist as \<open>fetch\<close> leaves it.
\<close>

record env =
  users_resolve :: "string option \<Rightarrow> string option"
  timeCode :: "number \<Rightarrow> string"
  Util_last_url :: "string option list \<Rightarrow> string option"
  QueryResolver_resolve :: "string \<Rightarrow> QueryType"
  ytdlGetInfo :: "string \<Rightarrow> ytdl_options option \<Rightarrow> string + videoInfo option"
  YouTube_search :: "string \<Rightarrow> string + yt_video list option"
  YouTube_getPlaylist :: "string \<Rightarrow> string + yt_playlist option"
  ytpl_fetch :: "yt_playlist \<Rightarrow> (string + unit) \<times> yt_playlist"
  soundcloud_search :: "string \<Rightarrow> string + string list option"
  soundcloud_getSongInfo :: "string option \<Rightarrow> string + sc_song option"
  soundcloud_getPlaylist :: "string \<Rightarrow> string + sc_playlist option"
  Util_getFetch :: "string + unit"
  Spotify_getData_song :: "string \<Rightarrow> string + spotify_track option"
  Spotify_getData_list :: "string \<Rightarrow> string + spotify_list option"

text \<open>\<open>promise.catch(Util.noop)\<close>: a rejection becomes \<open>undefined\<close>.\<close>

definition catch_noop :: "string + 'a option \<Rightarrow> 'a option" where
  "catch_noop r = (case r of Inl reason \<Rightarrow> None | Inr v \<Rightarrow> v)"

section \<open>The player\<close>

record PlayerInitOptions =
  autoRegisterExtractor :: "bool option"
  init_ytdlOptions :: "ytdl_options option"
  init_connectionTimeout :: "nat option"

text \<open>
  \<open>PlayerOptions & { metadata?: T }\<close>, the properties \<open>createQueue\<close> touches.
\<close>

record 'm PlayerOptions =
  metadata :: "'m option"
  volumeSmoothness :: "rat option"
  ytdlOptions :: "ytdl_options option"

text \<open>
  Modelled from the spec: the class \<open>Queue\<close>, whose file is not among the sources.
  The spec's Session has the destination key as its unique key and carries the
  caller's metadata. The object is its identity \<open>queue_id\<close> (two \<open>new Queue(...)\<close>
  give two different objects), the guild and the options that \<open>createQueue\<close> gives
  to the constructor and the \<open>metadata\<close> that \<open>createQueue\<close> assigns.
\<close>

record 'm Queue =
  queue_id :: nat
  dmGuild :: string
  queue_options :: "'m PlayerOptions"
  queue_metadata :: "'m option"

text \<open>
  The player: its options, the table of queues, the registered extractors in the
  order of their registration, which is the order a \<open>Collection\<close> iterates in, and
  \<open>next_queue\<close>, the identity the next constructed queue gets.
\<close>

record 'm Player =
  options :: PlayerInitOptions
  queues :: "string \<rightharpoonup> 'm Queue"
  extractors :: "(string \<times> ExtractorModel) list"
  next_queue :: nat

subsection \<open>\<open>createQueue\<close>, \<open>getQueue\<close>\<close>

definition createQueue :: "string \<Rightarrow> 'm PlayerOptions option \<Rightarrow> 'm Player \<Rightarrow> 'm Queue \<times> 'm Player" where
  "createQueue guild queueInitOptions' player =
     (case queues player guild of
        Some existing \<Rightarrow> (existing, player)
      | None \<Rightarrow>
          (let queueInitOptions =
                 or_else queueInitOptions'
                   \<lparr>metadata = None, volumeSmoothness = None, ytdlOptions = None\<rparr>;
               meta = metadata queueInitOptions;
               opts1 = queueInitOptions\<lparr>metadata := None\<rparr>;
               opts2 = opts1\<lparr>volumeSmoothness := or_opt (volumeSmoothness opts1) (Some (8 / 100))\<rparr>;
               opts3 = opts2\<lparr>ytdlOptions := or_opt (ytdlOptions opts2) (init_ytdlOptions (options player))\<rparr>;
               queue = \<lparr>queue_id = next_queue player, dmGuild = guild,
                        queue_options = opts3, queue_metadata = meta\<rparr>
           in (queue,
               player\<lparr>queues := (queues player)(guild \<mapsto> queue),
                      next_queue := Suc (next_queue player)\<rparr>)))"

definition getQueue :: "string \<Rightarrow> 'm Player \<Rightarrow> 'm Queue option" where
  "getQueue guild player = queues player guild"

subsection \<open>\<open>emit\<close>\<close>

text \<open>
  The player is an event emitter. \<open>events\<close> is the emitter's table of listeners,
  which holds an event name exactly while the event has a listener;
  \<open>console_error\<close>, \<open>process_warnings\<close> and \<open>delivered\<close> log what was written with
  \<open>console.error\<close>, what was given to \<open>process.emitWarning\<close> and which listener was
  called with which arguments.
\<close>

record 'a Emitter =
  requiredEvents :: "string list"
  events :: "(string \<times> nat list) list"
  console_error :: "'a list list"
  process_warnings :: "string list"
  delivered :: "(nat \<times> 'a list) list"

definition eventNames :: "'a Emitter \<Rightarrow> string list" where
  "eventNames em = map fst (events em)"

text \<open>
  \<open>super.emit\<close>, the emitter of the runtime: the listeners of the event are called
  in order and the result is \<open>true\<close>; without listeners the result is \<open>false\<close>,
  but an \<open>error\<close> event without listeners throws.
\<close>

definition super_emit :: "string \<Rightarrow> 'a list \<Rightarrow> 'a Emitter \<Rightarrow> (error + bool) \<times> 'a Emitter" where
  "super_emit eventName args em =
     (case map_of (events em) eventName of
        None \<Rightarrow>
          (if eventName = ''error'' then (Inl (Rejected ''Unhandled error''), em)
           else (Inr False, em))
      | Some listeners \<Rightarrow>
          (Inr True, em\<lparr>delivered := delivered em @ map (\<lambda>l. (l, args)) listeners\<rparr>))"

definition quoted :: "string \<Rightarrow> string" where
  "quoted m = [CHR 0x22] @ m @ [CHR 0x22]"

definition unhandled_warning :: "string \<Rightarrow> string list \<Rightarrow> string" where
  "unhandled_warning eventName required =
     ''[DiscordPlayerWarning] Unhandled '' @ quoted eventName @ '' event! Events ''
       @ join_str '', '' (map quoted required) @ '' must have event listeners!''"

definition emit :: "string \<Rightarrow> 'a list \<Rightarrow> 'a Emitter \<Rightarrow> (error + bool) \<times> 'a Emitter" where
  "emit eventName args em =
     (if eventName \<in> set (requiredEvents em) \<and> eventName \<notin> set (eventNames em)
      then (Inr False,
            em\<lparr>console_error := console_error em @ [args],
               process_warnings :=
                 process_warnings em @ [unhandled_warning eventName (requiredEvents em)]\<rparr>)
      else super_emit eventName args em)"

text \<open>The emitter of a new player: the two required events, no listener.\<close>

definition new_emitter :: "'a Emitter" where
  "new_emitter = \<lparr>requiredEvents = [''error'', ''connectionError''], events = [],
     console_error = [], process_warnings = [], delivered = []\<rparr>"

text \<open>The same emitter after listener 7 was registered for \<open>error\<close>.\<close>

definition listening_emitter :: "'a Emitter" where
  "listening_emitter = \<lparr>requiredEvents = [''error'', ''connectionError''],
     events = [(''error'', [7])], console_error = [], process_warnings = [], delivered = []\<rparr>"

subsection \<open>\<open>search\<close>: registered extractors\<close>

text \<open>
  Calls of the methods of registered extractors are logged, by the name the
  extractor is registered under, so that it can be said which extractors a search
  consulted.
\<close>

datatype call = Validate string | Handle string

text \<open>The data under the test \<open>data && data.data.length\<close>: the data if it has an item.\<close>

definition data_with_items :: "ExtractorModelData option \<Rightarrow> ExtractorModelData option" where
  "data_with_items data =
     (case data of None \<Rightarrow> None | Some d \<Rightarrow> if ex_data d = [] then None else Some d)"

text \<open>
  The result built from an extractor's data, the same in both places: the playlist
  if there is one, and a track for every item, with the requester, the duration
  as text and the playlist put in.
\<close>

definition extractor_track :: "env \<Rightarrow> string option \<Rightarrow> PlaylistInitData option
    \<Rightarrow> number RawTrackData \<Rightarrow> Track" where
  "extractor_track env requester pl m =
     new_Track
       \<lparr>data_title = data_title m, data_description = data_description m,
        data_author = data_author m, data_url = data_url m,
        data_thumbnail = data_thumbnail m,
        data_duration = Some (timeCode env (data_duration m)),
        data_views = data_views m, data_requestedBy = requester,
        data_playlist = pl, data_source = data_source m,
        data_raw_source = data_raw_source m\<rparr>"

definition extractor_result :: "env \<Rightarrow> string option \<Rightarrow> ExtractorModelData \<Rightarrow> PlayerSearchResult" where
  "extractor_result env requester data =
     \<lparr>playlist = ex_playlist data,
      tracks = map (extractor_track env requester (ex_playlist data)) (ex_data data)\<rparr>"

text \<open>
  The first block of \<open>search\<close>, for a \<open>searchEngine\<close> that is the name of a
  registered extractor. The result \<open>Some r\<close> says that \<open>search\<close> returns \<open>r\<close>
  here, \<open>None\<close> that it goes on behind the block.
\<close>

definition search_named :: "env \<Rightarrow> (string \<times> ExtractorModel) list \<Rightarrow> string option
    \<Rightarrow> searchEngine \<Rightarrow> string \<Rightarrow> (error + PlayerSearchResult option) \<times> call list" where
  "search_named env exts requester engine query =
     (case engine of
        EngineType qt \<Rightarrow> (Inr None, [])
      | EngineName name \<Rightarrow>
          (case map_of exts name of
             None \<Rightarrow> (Inr None, [])
           | Some extractor \<Rightarrow>
               if \<not> validate extractor query then (Inr (Some no_result), [Validate name])
               else (case handle extractor query of
                       Inl reason \<Rightarrow> (Inl (Rejected reason), [Validate name, Handle name])
                     | Inr data \<Rightarrow>
                         (case data_with_items data of
                            Some d \<Rightarrow>
                              (Inr (Some (extractor_result env requester d)),
                               [Validate name, Handle name])
                          | None \<Rightarrow> (Inr None, [Validate name, Handle name])))))"

text \<open>
  The loop over all registered extractors. \<open>blockExtractor\<close> is tested at the top
  of every round and leaves the loop.
\<close>

fun search_chain :: "env \<Rightarrow> bool \<Rightarrow> string option \<Rightarrow> string
    \<Rightarrow> (string \<times> ExtractorModel) list \<Rightarrow> (error + PlayerSearchResult option) \<times> call list" where
  "search_chain env blockExtractor requester query [] = (Inr None, [])"
| "search_chain env blockExtractor requester query ((name, extractor) # rest) =
     (if blockExtractor then (Inr None, [])
      else if \<not> validate extractor query
      then (case search_chain env blockExtractor requester query rest of
              (r, calls) \<Rightarrow> (r, Validate name # calls))
      else (case handle extractor query of
              Inl reason \<Rightarrow> (Inl (Rejected reason), [Validate name, Handle name])
            | Inr data \<Rightarrow>
                (case data_with_items data of
                   Some d \<Rightarrow>
                     (Inr (Some (extractor_result env requester d)),
                      [Validate name, Handle name])
                 | None \<Rightarrow>
                     (case search_chain env blockExtractor requester query rest of
                        (r, calls) \<Rightarrow> (r, Validate name # Handle name # calls)))))"

subsection \<open>\<open>search\<close>: the built-in sources\<close>

definition track_data :: "string option RawTrackData" where
  "track_data =
     \<lparr>data_title = None, data_description = None, data_author = None, data_url = None,
      data_thumbnail = None, data_duration = None, data_views = None,
      data_requestedBy = None, data_playlist = None, data_source = None,
      data_raw_source = None\<rparr>"

definition is_0_9 :: "char \<Rightarrow> bool" where
  "is_0_9 c = (48 \<le> (of_char c :: nat) \<and> (of_char c :: nat) \<le> 57)"

definition search_YOUTUBE_VIDEO :: "env \<Rightarrow> ytdl_options option \<Rightarrow> string option \<Rightarrow> string
    \<Rightarrow> error + PlayerSearchResult" where
  "search_YOUTUBE_VIDEO env ytdl requester query =
     (case catch_noop (ytdlGetInfo env query ytdl) of
        None \<Rightarrow> Inr no_result
      | Some info \<Rightarrow>
          Inr \<lparr>playlist = None,
               tracks = [new_Track (track_data
                 \<lparr>data_title := vd_title info,
                  data_description := vd_description info,
                  data_author := vd_author_name info,
                  data_url := vd_video_url info,
                  data_requestedBy := requester,
                  data_thumbnail := Util_last_url env (vd_thumbnails info),
                  data_views := Some (or_zero (parseInt (filter is_0_9 (vd_viewCount info)))),
                  data_duration :=
                    Some (timeCode env (num_mul (parseInt (vd_lengthSeconds info)) (Finite 1000))),
                  data_source := Some ''youtube'',
                  data_raw_source := info_source info\<rparr>)]\<rparr>)"

definition search_YOUTUBE_SEARCH :: "env \<Rightarrow> string option \<Rightarrow> string \<Rightarrow> error + PlayerSearchResult" where
  "search_YOUTUBE_SEARCH env requester query =
     (case catch_noop (YouTube_search env query) of
        None \<Rightarrow> Inr no_result
      | Some videos \<Rightarrow>
          Inr \<lparr>playlist = None,
               tracks = map (\<lambda>m. new_Track (track_data
                 \<lparr>data_title := v_title m,
                  data_description := v_description m,
                  data_author := v_channel_name m,
                  data_url := v_url m,
                  data_requestedBy := requester,
                  data_thumbnail :=
                    (case v_thumbnail m of None \<Rightarrow> None | Some th \<Rightarrow> th_maxresdefault th),
                  data_views := v_views m,
                  data_duration := v_durationFormatted m,
                  data_source := Some ''youtube'',
                  data_raw_source := Some (Some ''youtube'')\<rparr>)) videos\<rparr>)"

text \<open>
  Both SoundCloud cases share one body, which asks the query resolver again: a
  track link is looked up itself, anything else is searched for, and a search
  that rejects counts as an empty list. Every hit is then looked up, and a hit
  whose lookup fails is skipped.
\<close>

definition soundcloud_track :: "env \<Rightarrow> string option \<Rightarrow> string option \<Rightarrow> Track list" where
  "soundcloud_track env requester r_url =
     (case catch_noop (soundcloud_getSongInfo env r_url) of
        None \<Rightarrow> []
      | Some trackInfo \<Rightarrow>
          [new_Track (track_data
             \<lparr>data_title := sc_title trackInfo,
              data_url := sc_url trackInfo,
              data_duration := Some (timeCode env (sc_duration trackInfo)),
              data_description := sc_description trackInfo,
              data_thumbnail := sc_thumbnail trackInfo,
              data_views := sc_playCount trackInfo,
              data_author := sc_author_name trackInfo,
              data_requestedBy := requester,
              data_source := Some ''soundcloud''\<rparr>)])"

definition search_SOUNDCLOUD :: "env \<Rightarrow> string option \<Rightarrow> string \<Rightarrow> error + PlayerSearchResult" where
  "search_SOUNDCLOUD env requester query =
     (let result =
            (if QueryResolver_resolve env query = SOUNDCLOUD_TRACK then Some [Some query]
             else (case soundcloud_search env query of
                     Inl reason \<Rightarrow> Some []
                   | Inr found \<Rightarrow> map_option (map Some) found))
      in case result of
           None \<Rightarrow> Inr no_result
         | Some hits \<Rightarrow>
             if hits = [] then Inr no_result
             else Inr \<lparr>playlist = None,
                      tracks = concat (map (soundcloud_track env requester) hits)\<rparr>)"

definition spotify_default_thumbnail :: string where
  "spotify_default_thumbnail = ''https://www.scdn.co/i/_global/twitter_card-default.jpg''"

definition first_artist_name :: "spotify_artist list \<Rightarrow> string option" where
  "first_artist_name artists = (case artists of [] \<Rightarrow> None | a # _ \<Rightarrow> artist_name a)"

definition first_artist_url :: "spotify_artist list \<Rightarrow> string option" where
  "first_artist_url artists = (case artists of [] \<Rightarrow> None | a # _ \<Rightarrow> artist_url a)"

definition first_image :: "string option list \<Rightarrow> string option" where
  "first_image images = (case images of [] \<Rightarrow> None | u # _ \<Rightarrow> u)"

definition undefined_index :: string where
  "undefined_index = ''Cannot read properties of undefined (reading 0)''"

definition undefined_url :: string where
  "undefined_url = ''Cannot read properties of undefined (reading url)''"

text \<open>
  The thumbnail of a Spotify song: \<open>a ?? b ? c : d\<close> is \<open>(a ?? b) ? c : d\<close>, with \<open>a\<close>
  the first image of the album and \<open>b\<close> the length of the preview link; \<open>c\<close> is
  built from the part of the preview link behind the first \<open>?cid=\<close>, which prints
  as \<open>undefined\<close> when there is none.
\<close>

definition spotify_song_thumbnail :: "spotify_track \<Rightarrow> string" where
  "spotify_song_thumbnail d =
     (let truthy =
            (case (case sp_album_images d of None \<Rightarrow> None | Some images \<Rightarrow> first_image images) of
               Some u \<Rightarrow> u \<noteq> []
             | None \<Rightarrow> (case sp_preview_url d of None \<Rightarrow> False | Some p \<Rightarrow> p \<noteq> []))
      in if truthy
         then ''https://i.scdn.co/image/'' @
                (case sp_preview_url d of
                   None \<Rightarrow> ''undefined''
                 | Some p \<Rightarrow>
                     (case split_str ''?cid='' p of
                        a # b # rest \<Rightarrow> b
                      | _ \<Rightarrow> ''undefined''))
         else spotify_default_thumbnail)"

definition search_SPOTIFY_SONG :: "env \<Rightarrow> string option \<Rightarrow> string \<Rightarrow> error + PlayerSearchResult" where
  "search_SPOTIFY_SONG env requester query =
     (case Util_getFetch env of
        Inl reason \<Rightarrow> Inl (Rejected reason)
      | Inr fetch \<Rightarrow>
          (case catch_noop (Spotify_getData_song env query) of
             None \<Rightarrow> Inr no_result
           | Some spotifyData \<Rightarrow>
               (case sp_artists spotifyData of
                  None \<Rightarrow> Inl (TypeError undefined_index)
                | Some artists \<Rightarrow>
                    Inr \<lparr>playlist = None,
                         tracks = [new_Track (track_data
                           \<lparr>data_title := sp_name spotifyData,
                            data_description := Some (or_else (sp_description spotifyData) ''''),
                            data_author := Some (or_else (first_artist_name artists) ''Unknown Artist''),
                            data_url := Some (or_else (sp_external_url spotifyData) query),
                            data_thumbnail := Some (spotify_song_thumbnail spotifyData),
                            data_duration := Some (timeCode env (sp_duration_ms spotifyData)),
                            data_views := Some (Finite 0),
                            data_requestedBy := requester,
                            data_source := Some ''spotify''\<rparr>)]\<rparr>)))"

text \<open>A \<open>map\<close> whose callback can throw: the first error ends it.\<close>

fun map_throwing :: "('a \<Rightarrow> error + 'b) \<Rightarrow> 'a list \<Rightarrow> error + 'b list" where
  "map_throwing f [] = Inr []"
| "map_throwing f (x # xs) =
     (case f x of
        Inl e \<Rightarrow> Inl e
      | Inr y \<Rightarrow> (case map_throwing f xs of Inl e \<Rightarrow> Inl e | Inr ys \<Rightarrow> Inr (y # ys)))"

text \<open>
  A Spotify playlist or album. The author is the first artist unless the type
  is \<open>playlist\<close>, where it is the owner; the items of a playlist carry their track
  one level deeper and read it more carefully.
\<close>

definition spotify_list_author :: "spotify_list \<Rightarrow> error + string \<times> string option" where
  "spotify_list_author sp =
     (if spl_type sp \<noteq> Some ''playlist''
      then (case spl_artists sp of
              None \<Rightarrow> Inl (TypeError undefined_index)
            | Some artists \<Rightarrow>
                Inr (or_else (first_artist_name artists) ''Unknown Artist'', first_artist_url artists))
      else Inr (or_else (or_opt (spl_owner_display_name sp) (spl_owner_id sp)) ''Unknown Artist'',
                spl_owner_url sp))"

definition spotify_album_track :: "env \<Rightarrow> string option \<Rightarrow> string \<Rightarrow> spotify_list
    \<Rightarrow> PlaylistInitData \<Rightarrow> spotify_track \<Rightarrow> error + Track" where
  "spotify_album_track env requester query sp pl m =
     (case sp_artists m of
        None \<Rightarrow> Inl (TypeError undefined_index)
      | Some artists \<Rightarrow>
          Inr (new_Track (track_data
            \<lparr>data_title := Some (or_else (sp_name m) ''''),
             data_description := Some (or_else (sp_description m) ''''),
             data_author := Some (or_else (first_artist_name artists) ''Unknown Artist''),
             data_url := Some (or_else (sp_external_url m) query),
             data_thumbnail := Some (or_else (first_image (spl_images sp)) spotify_default_thumbnail),
             data_duration := Some (timeCode env (sp_duration_ms m)),
             data_views := Some (Finite 0),
             data_requestedBy := requester,
             data_playlist := Some pl,
             data_source := Some ''spotify''\<rparr>)))"

definition spotify_playlist_track :: "env \<Rightarrow> string option \<Rightarrow> string
    \<Rightarrow> PlaylistInitData \<Rightarrow> spotify_track \<Rightarrow> Track" where
  "spotify_playlist_track env requester query pl t =
     new_Track (track_data
       \<lparr>data_title := Some (or_else (sp_name t) ''''),
        data_description := Some (or_else (sp_description t) ''''),
        data_author :=
          Some (or_else (case sp_artists t of None \<Rightarrow> None | Some artists \<Rightarrow> first_artist_name artists)
                  ''Unknown Artist''),
        data_url := Some (or_else (sp_external_url t) query),
        data_thumbnail :=
          Some (or_else (case sp_album_images t of None \<Rightarrow> None | Some images \<Rightarrow> first_image images)
                  spotify_default_thumbnail),
        data_duration := Some (timeCode env (sp_duration_ms t)),
        data_views := Some (Finite 0),
        data_requestedBy := requester,
        data_playlist := Some pl,
        data_source := Some ''spotify''\<rparr>)"

definition search_SPOTIFY_LIST :: "env \<Rightarrow> string option \<Rightarrow> string \<Rightarrow> error + PlayerSearchResult" where
  "search_SPOTIFY_LIST env requester query =
     (case Util_getFetch env of
        Inl reason \<Rightarrow> Inl (Rejected reason)
      | Inr fetch \<Rightarrow>
          (case catch_noop (Spotify_getData_list env query) of
             None \<Rightarrow> Inr no_result
           | Some spotifyPlaylist \<Rightarrow>
               (case spotify_list_author spotifyPlaylist of
                  Inl e \<Rightarrow> Inl e
                | Inr (author_name, author_url) \<Rightarrow>
                    (let pl =
                           \<lparr>pl_title = or_opt (spl_name spotifyPlaylist) (spl_title spotifyPlaylist),
                            pl_description = Some (or_else (spl_description spotifyPlaylist) ''''),
                            pl_thumbnail =
                              Some (or_else (first_image (spl_images spotifyPlaylist))
                                      spotify_default_thumbnail),
                            pl_type = spl_type spotifyPlaylist,
                            pl_source = Some ''spotify'',
                            pl_author_name = Some author_name,
                            pl_author_url = author_url,
                            pl_id = spl_id spotifyPlaylist,
                            pl_url = Some (or_else (spl_external_url spotifyPlaylist) query)\<rparr>;
                         made =
                           (if spl_type spotifyPlaylist \<noteq> Some ''playlist''
                            then map_throwing
                                   (spotify_album_track env requester query spotifyPlaylist pl)
                                   (spl_items spotifyPlaylist)
                            else Inr (map (spotify_playlist_track env requester query pl)
                                        (spl_items spotifyPlaylist)))
                     in case made of
                          Inl e \<Rightarrow> Inl e
                        | Inr ts \<Rightarrow> Inr \<lparr>playlist = Some pl, tracks = ts\<rparr>))))"

definition search_SOUNDCLOUD_PLAYLIST :: "env \<Rightarrow> string option \<Rightarrow> string
    \<Rightarrow> error + PlayerSearchResult" where
  "search_SOUNDCLOUD_PLAYLIST env requester query =
     (case catch_noop (soundcloud_getPlaylist env query) of
        None \<Rightarrow> Inr no_result
      | Some data \<Rightarrow>
          (let res =
                 \<lparr>pl_title = scp_title data,
                  pl_description = Some (or_else (scp_description data) ''''),
                  pl_thumbnail =
                    Some (or_else (scp_thumbnail data) ''https://soundcloud.com/pwa-icon-192.png''),
                  pl_type = Some ''playlist'',
                  pl_source = Some ''soundcloud'',
                  pl_author_name =
                    Some (or_else (or_opt (scp_author_name data) (scp_author_username data))
                            ''Unknown Artist''),
                  pl_author_url = scp_author_profile data,
                  pl_id = Some (scp_id data),
                  pl_url = scp_url data\<rparr>
           in Inr \<lparr>playlist = Some res,
                   tracks = map (\<lambda>song. new_Track (track_data
                     \<lparr>data_title := sc_title song,
                      data_description := Some (or_else (sc_description song) ''''),
                      data_author :=
                        Some (or_else (or_opt (sc_author_username song) (sc_author_name song))
                                ''Unknown Artist''),
                      data_url := sc_url song,
                      data_thumbnail := sc_thumbnail song,
                      data_duration := Some (timeCode env (sc_duration song)),
                      data_views := Some (or_else (sc_playCount song) (Finite 0)),
                      data_requestedBy := requester,
                      data_playlist := Some res,
                      data_source := Some ''soundcloud''\<rparr>)) (scp_tracks data)\<rparr>))"

definition youtube_playlist_track :: "string option \<Rightarrow> PlaylistInitData \<Rightarrow> yt_video \<Rightarrow> error + Track" where
  "youtube_playlist_track requester pl video =
     (case v_thumbnail video of
        None \<Rightarrow> Inl (TypeError undefined_url)
      | Some th \<Rightarrow>
          Inr (new_Track (track_data
            \<lparr>data_title := v_title video,
             data_description := v_description video,
             data_author := v_channel_name video,
             data_url := v_url video,
             data_requestedBy := requester,
             data_thumbnail := th_url th,
             data_views := v_views video,
             data_duration := v_durationFormatted video,
             data_raw_source := v_source video,
             data_playlist := Some pl,
             data_source := Some ''youtube''\<rparr>)))"

definition search_YOUTUBE_PLAYLIST :: "env \<Rightarrow> string option \<Rightarrow> string \<Rightarrow> error + PlayerSearchResult" where
  "search_YOUTUBE_PLAYLIST env requester query =
     (case catch_noop (YouTube_getPlaylist env query) of
        None \<Rightarrow> Inr no_result
      | Some found \<Rightarrow>
          (let ytpl = snd (ytpl_fetch env found);
               pl =
                 \<lparr>pl_title = ytp_title ytpl,
                  pl_description = Some '''',
                  pl_thumbnail = ytp_thumbnail ytpl,
                  pl_type = Some ''playlist'',
                  pl_source = Some ''youtube'',
                  pl_author_name = ytp_channel_name ytpl,
                  pl_author_url = ytp_channel_url ytpl,
                  pl_id = ytp_id ytpl,
                  pl_url = ytp_url ytpl\<rparr>
           in case map_throwing (youtube_playlist_track requester pl) (ytp_videos ytpl) of
                Inl e \<Rightarrow> Inl e
              | Inr ts \<Rightarrow> Inr \<lparr>playlist = Some pl, tracks = ts\<rparr>))"

text \<open>
  The \<open>switch\<close>. The query type is the resolver's answer for \<open>AUTO\<close> and the
  \<open>searchEngine\<close> itself otherwise; a \<open>searchEngine\<close> that is a string is no member
  of \<open>QueryType\<close> and ends in \<open>default\<close>.
\<close>

definition search_builtin :: "env \<Rightarrow> 'm Player \<Rightarrow> string option \<Rightarrow> searchEngine \<Rightarrow> string
    \<Rightarrow> error + PlayerSearchResult" where
  "search_builtin env player requester engine query =
     (let qt = (if engine = EngineType AUTO then EngineType (QueryResolver_resolve env query)
                else engine)
      in case qt of
           EngineName name \<Rightarrow> Inr no_result
         | EngineType YOUTUBE_VIDEO \<Rightarrow>
             search_YOUTUBE_VIDEO env (init_ytdlOptions (options player)) requester query
         | EngineType YOUTUBE_SEARCH \<Rightarrow> search_YOUTUBE_SEARCH env requester query
         | EngineType SOUNDCLOUD_TRACK \<Rightarrow> search_SOUNDCLOUD env requester query
         | EngineType SOUNDCLOUD_SEARCH \<Rightarrow> search_SOUNDCLOUD env requester query
         | EngineType SPOTIFY_SONG \<Rightarrow> search_SPOTIFY_SONG env requester query
         | EngineType SPOTIFY_PLAYLIST \<Rightarrow> search_SPOTIFY_LIST env requester query
         | EngineType SPOTIFY_ALBUM \<Rightarrow> search_SPOTIFY_LIST env requester query
         | EngineType SOUNDCLOUD_PLAYLIST \<Rightarrow> search_SOUNDCLOUD_PLAYLIST env requester query
         | EngineType YOUTUBE_PLAYLIST \<Rightarrow> search_YOUTUBE_PLAYLIST env requester query
         | EngineType other \<Rightarrow> Inr no_result)"

subsection \<open>\<open>search\<close>\<close>

datatype query = QueryString string | QueryTrack Track

definition needs_options :: error where
  "needs_options = PlayerError ''DiscordPlayer#search needs search options!'' INVALID_ARG_TYPE"

definition search :: "env \<Rightarrow> 'm Player \<Rightarrow> query \<Rightarrow> SearchOptions option
    \<Rightarrow> (error + PlayerSearchResult) \<times> call list" where
  "search env player query' options' =
     (case query' of
        QueryTrack t \<Rightarrow> (Inr \<lparr>playlist = track_playlist t, tracks = [t]\<rparr>, [])
      | QueryString query \<Rightarrow>
          (case options' of
             None \<Rightarrow> (Inl needs_options, [])
           | Some opts \<Rightarrow>
               (let requester = users_resolve env (opt_requestedBy opts);
                    engine = or_else (opt_searchEngine opts) (EngineType AUTO)
                in case search_named env (extractors player) requester engine query of
                     (Inl e, calls1) \<Rightarrow> (Inl e, calls1)
                   | (Inr (Some r), calls1) \<Rightarrow> (Inr r, calls1)
                   | (Inr None, calls1) \<Rightarrow>
                       (case search_chain env (Boolean_opt (opt_blockExtractor opts)) requester
                               query (extractors player) of
                          (Inl e, calls2) \<Rightarrow> (Inl e, calls1 @ calls2)
                        | (Inr (Some r), calls2) \<Rightarrow> (Inr r, calls1 @ calls2)
                        | (Inr None, calls2) \<Rightarrow>
                            (search_builtin env player requester engine query,
                             calls1 @ calls2)))))"

section \<open>Predicates used in the statements and proofs\<close>






text \<open>The requester and the search engine as \<open>search\<close> computes them from its options.\<close>

definition requester_of :: "env \<Rightarrow> SearchOptions \<Rightarrow> string option" where
  "requester_of env opts = users_resolve env (opt_requestedBy opts)"

definition engine_of :: "SearchOptions \<Rightarrow> searchEngine" where
  "engine_of opts = or_else (opt_searchEngine opts) (EngineType AUTO)"

text \<open>The registered extractors give no result and no error: \<open>search\<close> reaches the \<open>switch\<close>.\<close>

definition registered_give_nothing :: "env \<Rightarrow> 'm Player \<Rightarrow> SearchOptions \<Rightarrow> string \<Rightarrow> bool" where
  "registered_give_nothing env player opts query =
     (fst (search_named env (extractors player) (requester_of env opts) (engine_of opts) query)
        = Inr None
      \<and> fst (search_chain env (Boolean_opt (opt_blockExtractor opts)) (requester_of env opts)
                query (extractors player)) = Inr None)"

text \<open>The query type the \<open>switch\<close> looks at, if it is one.\<close>

definition switch_type :: "env \<Rightarrow> SearchOptions \<Rightarrow> string \<Rightarrow> QueryType option" where
  "switch_type env opts query =
     (case engine_of opts of
        EngineName name \<Rightarrow> None
      | EngineType qt \<Rightarrow> Some (if qt = AUTO then QueryResolver_resolve env query else qt))"

text \<open>The network lookup of the branch for a query type rejects.\<close>

definition soundcloud_rejects :: "env \<Rightarrow> string \<Rightarrow> bool" where
  "soundcloud_rejects env query =
     (if QueryResolver_resolve env query = SOUNDCLOUD_TRACK
      then isl (soundcloud_getSongInfo env (Some query))
      else isl (soundcloud_search env query))"

definition lookup_rejects :: "env \<Rightarrow> 'm Player \<Rightarrow> QueryType \<Rightarrow> string \<Rightarrow> bool" where
  "lookup_rejects env player qt query =
     (case qt of
        YOUTUBE_VIDEO \<Rightarrow> isl (ytdlGetInfo env query (init_ytdlOptions (options player)))
      | YOUTUBE_SEARCH \<Rightarrow> isl (YouTube_search env query)
      | SOUNDCLOUD_TRACK \<Rightarrow> soundcloud_rejects env query
      | SOUNDCLOUD_SEARCH \<Rightarrow> soundcloud_rejects env query
      | SPOTIFY_SONG \<Rightarrow> isl (Spotify_getData_song env query)
      | SPOTIFY_PLAYLIST \<Rightarrow> isl (Spotify_getData_list env query)
      | SPOTIFY_ALBUM \<Rightarrow> isl (Spotify_getData_list env query)
      | SOUNDCLOUD_PLAYLIST \<Rightarrow> isl (soundcloud_getPlaylist env query)
      | YOUTUBE_PLAYLIST \<Rightarrow> isl (YouTube_getPlaylist env query)
      | AUTO \<Rightarrow> False
      | OTHER_QUERY_TYPE \<Rightarrow> False)"

section \<open>Example values\<close>

text \<open>
  Collaborators without a network: every lookup rejects; the query resolver knows
  no built-in source for any query.
\<close>

definition env_offline :: env where
  "env_offline =
     \<lparr>users_resolve = (\<lambda>u. u),
      timeCode = (\<lambda>n. ''0:00''),
      Util_last_url = (\<lambda>thumbnails. None),
      QueryResolver_resolve = (\<lambda>q. OTHER_QUERY_TYPE),
      ytdlGetInfo = (\<lambda>q o'. Inl ''ECONNRESET''),
      YouTube_search = (\<lambda>q. Inl ''ECONNRESET''),
      YouTube_getPlaylist = (\<lambda>q. Inl ''ECONNRESET''),
      ytpl_fetch = (\<lambda>p. (Inl ''ECONNRESET'', p)),
      soundcloud_search = (\<lambda>q. Inl ''ECONNRESET''),
      soundcloud_getSongInfo = (\<lambda>u. Inl ''ECONNRESET''),
      soundcloud_getPlaylist = (\<lambda>q. Inl ''ECONNRESET''),
      Util_getFetch = Inr (),
      Spotify_getData_song = (\<lambda>q. Inl ''ECONNRESET''),
      Spotify_getData_list = (\<lambda>q. Inl ''ECONNRESET'')\<rparr>"

definition item :: "string \<Rightarrow> number RawTrackData" where
  "item t =
     \<lparr>data_title = Some t, data_description = None, data_author = None, data_url = None,
      data_thumbnail = None, data_duration = Finite 1000, data_views = None,
      data_requestedBy = None, data_playlist = None, data_source = None,
      data_raw_source = None\<rparr>"

definition two_items :: ExtractorModelData where
  "two_items = \<lparr>ex_playlist = None, ex_data = [item ''one'', item ''two'']\<rparr>"

text \<open>
  R1 takes every query and finds nothing, R2 takes every query and finds two
  items, R0 takes no query.
\<close>

definition R0 :: ExtractorModel where
  "R0 = \<lparr>validate = (\<lambda>q. False), handle = (\<lambda>q. Inr None)\<rparr>"

definition R1 :: ExtractorModel where
  "R1 = \<lparr>validate = (\<lambda>q. True),
          handle = (\<lambda>q. Inr (Some \<lparr>ex_playlist = None, ex_data = []\<rparr>))\<rparr>"

definition R2 :: ExtractorModel where
  "R2 = \<lparr>validate = (\<lambda>q. True), handle = (\<lambda>q. Inr (Some two_items))\<rparr>"

definition init_options :: PlayerInitOptions where
  "init_options = \<lparr>autoRegisterExtractor = Some True,
     init_ytdlOptions = Some \<lparr>highWaterMark = Some (2 ^ 25)\<rparr>,
     init_connectionTimeout = Some 20000\<rparr>"

definition player_with :: "(string \<times> ExtractorModel) list \<Rightarrow> unit Player" where
  "player_with exts = \<lparr>options = init_options, queues = Map.empty, extractors = exts,
     next_queue = 0\<rparr>"

definition search_options :: "searchEngine option \<Rightarrow> bool option \<Rightarrow> SearchOptions" where
  "search_options engine block =
     \<lparr>opt_requestedBy = None, opt_searchEngine = engine, opt_blockExtractor = block\<rparr>"

section \<open>Properties of VoiceUtils\<close>

text \<open>
  C6, as the code has it: \<open>connect\<close> does not look at the cache. Whenever the
  platform resolves the call, also when the cache already holds a dispatcher
  for the channel, one more transport connection is requested, a dispatcher with a
  fresh identity is constructed around the new connection and returned, and it
  replaces whatever the cache held under the channel id.
\<close>

theorem connect_always_joins_and_replaces:
  assumes "call channel (Boolean_opt (deaf opts)) = Inr conn"
  shows "connect channel (Some opts) vu =
           (Inr \<lparr>dispatcher_id = next_dispatcher vu, voiceConnection = conn,
                 connectionTimeout = maxTime opts\<rparr>,
            vu\<lparr>requested := requested vu @ [(channel_id channel, Boolean_opt (deaf opts))],
               cache := (cache vu)(channel_id channel \<mapsto>
                          \<lparr>dispatcher_id = next_dispatcher vu, voiceConnection = conn,
                           connectionTimeout = maxTime opts\<rparr>),
               next_dispatcher := Suc (next_dispatcher vu)\<rparr>)"
  using assms by (simp add: connect_def join_def Let_def)

theorem connect_always_joins_and_replaces_witness:
  "call channel_A (Boolean_opt (deaf options_plain)) = Inr (VoiceConnection 7)
   \<and> fst (connect channel_A (Some options_plain) utils_joined) =
       Inr \<lparr>dispatcher_id = 1, voiceConnection = VoiceConnection 7, connectionTimeout = None\<rparr>
   \<and> requested (snd (connect channel_A (Some options_plain) utils_joined)) =
       [(''A'', False), (''A'', False)]"
proof -
  have h: "call channel_A (Boolean_opt (deaf options_plain)) = Inr (VoiceConnection 7)"
    by (simp add: channel_A_def)
  show ?thesis
    using h connect_always_joins_and_replaces [OF h, of utils_joined]
    by (simp add: utils_joined_def options_plain_def channel_A_def Boolean_opt_def)
qed

text \<open>
  C6, counterexample to the claim as stated: the cache holds \<open>dispatcher_0\<close> for
  channel A, and \<open>connect\<close> on channel A does not return it, requests a second
  transport connection and overwrites the cache entry.
\<close>

theorem connect_existing_entry_counterexample:
  "getConnection ''A'' utils_joined = Some dispatcher_0
   \<and> fst (connect channel_A (Some options_plain) utils_joined) \<noteq> Inr dispatcher_0
   \<and> length (requested (snd (connect channel_A (Some options_plain) utils_joined))) =
       Suc (length (requested utils_joined))
   \<and> getConnection ''A'' (snd (connect channel_A (Some options_plain) utils_joined))
       \<noteq> Some dispatcher_0"
  by (simp add: connect_def join_def getConnection_def utils_joined_def channel_A_def
      dispatcher_0_def options_plain_def Boolean_opt_def Let_def)

text \<open>
  C10: with the options argument omitted, \<open>join\<close> and \<open>connect\<close> both throw a
  TypeError and leave the state as it was, so no transport connection has been
  requested; with an options object supplied, neither of them throws a TypeError
  (what can still come back is a rejection of the platform's call).
\<close>

theorem omitted_options_throw:
  "join channel None vu = (Inl (TypeError undefined_deaf), vu)
   \<and> connect channel None vu = (Inl (TypeError undefined_deaf), vu)
   \<and> (\<forall>m. fst (join channel (Some opts) vu) \<noteq> Inl (TypeError m))
   \<and> (\<forall>m. fst (connect channel (Some opts) vu) \<noteq> Inl (TypeError m))"
  by (auto simp add: connect_def join_def Let_def split: sum.splits)


section \<open>Properties of \<open>escapeMarkdown\<close>\<close>





























text \<open>
  With the options left out, the spoiler pattern puts an escaped pair of bars at
  every position, also into a text without any marker.
\<close>

lemma escapeMarkdown_default_plain: "escapeMarkdown ''a'' no_options =
    [bsl, CHR ''|'', bsl, CHR ''|'', CHR ''a'', bsl, CHR ''|'', bsl, CHR ''|'']"
  by code_simp




section \<open>Properties of \<open>durationMS\<close>\<close>








































section \<open>Properties of the player\<close>

text \<open>
  C8: a second \<open>createQueue\<close> for a guild, whatever options it is given, returns
  the queue that the first call returned and leaves the player as the first call
  left it: the table of queues is the same and no further queue object has been
  constructed. Over both calls one queue is constructed if the guild had none
  before, and none otherwise.
\<close>

theorem createQueue_idempotent:
  "createQueue guild second (snd (createQueue guild first player))
     = createQueue guild first player
   \<and> next_queue (snd (createQueue guild second (snd (createQueue guild first player))))
     = (if queues player guild = None then Suc (next_queue player) else next_queue player)"
  by (cases "queues player guild") (simp_all add: createQueue_def Let_def)

text \<open>
  C9: emitting a required event that has no listener writes the arguments with
  \<open>console.error\<close>, emits the process warning whose text names the event and
  lists the required events, returns \<open>false\<close> and calls no listener; in every
  other case \<open>emit\<close> is the emitter's own \<open>emit\<close>, which with listeners for the
  event calls each of them with the arguments and returns \<open>true\<close>.
\<close>

theorem emit_required_without_listener:
  "(eventName \<in> set (requiredEvents em) \<and> eventName \<notin> set (eventNames em) \<longrightarrow>
      emit eventName args em =
        (Inr False,
         em\<lparr>console_error := console_error em @ [args],
            process_warnings :=
              process_warnings em @
                [''[DiscordPlayerWarning] Unhandled '' @ [CHR 0x22] @ eventName @ [CHR 0x22]
                 @ '' event! Events ''
                 @ join_str '', '' (map (\<lambda>m. [CHR 0x22] @ m @ [CHR 0x22]) (requiredEvents em))
                 @ '' must have event listeners!'']\<rparr>)
      \<and> delivered (snd (emit eventName args em)) = delivered em)
   \<and> (\<not> (eventName \<in> set (requiredEvents em) \<and> eventName \<notin> set (eventNames em)) \<longrightarrow>
        emit eventName args em = super_emit eventName args em)
   \<and> (map_of (events em) eventName = Some listeners \<longrightarrow>
        emit eventName args em =
          (Inr True, em\<lparr>delivered := delivered em @ map (\<lambda>l. (l, args)) listeners\<rparr>))"
proof -
  have names: "map_of (events em) eventName = Some listeners \<Longrightarrow> eventName \<in> set (eventNames em)"
    by (auto simp add: eventNames_def dest: map_of_SomeD intro: rev_image_eqI)
  have quoting: "map quoted (requiredEvents em) =
      map (\<lambda>m. [CHR 0x22] @ m @ [CHR 0x22]) (requiredEvents em)"
    by (simp add: quoted_def)
  show ?thesis
    using names
    by (auto simp add: emit_def super_emit_def unhandled_warning_def quoted_def quoting)
qed

theorem emit_required_without_listener_witness:
  "''error'' \<in> set (requiredEvents (new_emitter :: nat Emitter))
   \<and> ''error'' \<notin> set (eventNames (new_emitter :: nat Emitter))
   \<and> fst (emit ''error'' [1::nat] new_emitter) = Inr False
   \<and> console_error (snd (emit ''error'' [1::nat] new_emitter)) = [[1]]
   \<and> process_warnings (snd (emit ''error'' [1::nat] new_emitter)) =
       [''[DiscordPlayerWarning] Unhandled '' @ [CHR 0x22] @ ''error'' @ [CHR 0x22]
        @ '' event! Events '' @ [CHR 0x22] @ ''error'' @ [CHR 0x22] @ '', ''
        @ [CHR 0x22] @ ''connectionError'' @ [CHR 0x22] @ '' must have event listeners!'']
   \<and> delivered (snd (emit ''error'' [1::nat] new_emitter)) = []
   \<and> \<not> (''trackStart'' \<in> set (requiredEvents (new_emitter :: nat Emitter))
          \<and> ''trackStart'' \<notin> set (eventNames (new_emitter :: nat Emitter)))
   \<and> emit ''trackStart'' [1::nat] new_emitter = super_emit ''trackStart'' [1] new_emitter
   \<and> map_of (events (listening_emitter :: nat Emitter)) ''error'' = Some [7]
   \<and> emit ''error'' [1::nat] listening_emitter =
       (Inr True, listening_emitter\<lparr>delivered := [(7, [1])]\<rparr>)"
proof -
  have a: "''error'' \<in> set (requiredEvents (new_emitter :: nat Emitter))
      \<and> ''error'' \<notin> set (eventNames (new_emitter :: nat Emitter))"
    by (simp add: new_emitter_def eventNames_def)
  have b: "\<not> (''trackStart'' \<in> set (requiredEvents (new_emitter :: nat Emitter))
      \<and> ''trackStart'' \<notin> set (eventNames (new_emitter :: nat Emitter)))"
    by (simp add: new_emitter_def)
  have c: "map_of (events (listening_emitter :: nat Emitter)) ''error'' = Some [7]"
    by (simp add: listening_emitter_def)
  have 1: "emit ''error'' [1::nat] new_emitter =
      (Inr False,
       new_emitter\<lparr>console_error := console_error new_emitter @ [[1]],
          process_warnings :=
            process_warnings (new_emitter :: nat Emitter) @
              [''[DiscordPlayerWarning] Unhandled '' @ [CHR 0x22] @ ''error'' @ [CHR 0x22]
               @ '' event! Events ''
               @ join_str '', '' (map (\<lambda>m. [CHR 0x22] @ m @ [CHR 0x22])
                                   (requiredEvents (new_emitter :: nat Emitter)))
               @ '' must have event listeners!'']\<rparr>)"
    by (rule emit_required_without_listener [of "''error''" "new_emitter :: nat Emitter" "[1]" "[]",
          THEN conjunct1, THEN mp, OF a, THEN conjunct1])
  have 2: "emit ''trackStart'' [1::nat] new_emitter = super_emit ''trackStart'' [1] new_emitter"
    by (rule emit_required_without_listener [of "''trackStart''" "new_emitter :: nat Emitter"
          "[1]" "[]", THEN conjunct2, THEN conjunct1, THEN mp, OF b])
  have 3: "emit ''error'' [1::nat] listening_emitter =
      (Inr True, listening_emitter\<lparr>delivered := delivered listening_emitter @ map (\<lambda>l. (l, [1])) [7]\<rparr>)"
    by (rule emit_required_without_listener [of "''error''" "listening_emitter :: nat Emitter"
          "[1]" "[7]", THEN conjunct2, THEN conjunct2, THEN mp, OF c])
  have 4: "delivered (listening_emitter :: nat Emitter) @ map (\<lambda>l. (l, [1::nat])) [7] = [(7, [1])]"
    by (simp add: listening_emitter_def)
  have w1: "fst (emit ''error'' [1::nat] new_emitter) = Inr False"
    by (simp only: 1 fst_conv)
  have w2: "console_error (snd (emit ''error'' [1::nat] new_emitter)) = [[1]]"
    unfolding 1 by (simp add: new_emitter_def)
  have w3: "process_warnings (snd (emit ''error'' [1::nat] new_emitter)) =
       [''[DiscordPlayerWarning] Unhandled '' @ [CHR 0x22] @ ''error'' @ [CHR 0x22]
        @ '' event! Events '' @ [CHR 0x22] @ ''error'' @ [CHR 0x22] @ '', ''
        @ [CHR 0x22] @ ''connectionError'' @ [CHR 0x22] @ '' must have event listeners!'']"
    unfolding 1 by (simp add: new_emitter_def)
  have w4: "delivered (snd (emit ''error'' [1::nat] new_emitter)) = []"
    unfolding 1 by (simp add: new_emitter_def)
  have w5: "emit ''error'' [1::nat] listening_emitter =
       (Inr True, listening_emitter\<lparr>delivered := [(7, [1])]\<rparr>)"
    by (simp only: 3 4)
  from a b c w1 w2 w3 w4 2 w5 show ?thesis
    by (elim conjE) (intro conjI; assumption)
qed

section \<open>Properties of \<open>search\<close>\<close>

lemma search_chain_blocked: "search_chain env True requester query exts = (Inr None, [])"
  by (cases exts) auto





text \<open>
  C4, as the code has it: the search engine names a registered extractor. If the
  extractor does not take the query, \<open>search\<close> returns the empty result without
  an error, and the check is the only call made. If it takes the query and
  resolves to a non-empty list, \<open>search\<close> returns the tracks made from it, and
  its check and lookup are the only calls made. If it takes the query and
  resolves to \<open>null\<close> or to an empty list, \<open>search\<close> goes on as if no extractor
  had been named: with the loop over all registered extractors and, if that gives
  nothing, with the built-in sources.
\<close>

theorem search_named_extractor:
  assumes "opt_searchEngine opts = Some (EngineName name)"
    and "map_of (extractors player) name = Some extractor"
  shows "(\<not> validate extractor query \<longrightarrow>
            search env player (QueryString query) (Some opts) = (Inr no_result, [Validate name]))
       \<and> (validate extractor query \<and> handle extractor query = Inr (Some data)
            \<and> ex_data data \<noteq> [] \<longrightarrow>
            search env player (QueryString query) (Some opts) =
              (Inr (extractor_result env (requester_of env opts) data),
               [Validate name, Handle name]))
       \<and> (validate extractor query
            \<and> (handle extractor query = Inr None
                \<or> handle extractor query = Inr (Some data) \<and> ex_data data = []) \<longrightarrow>
            search env player (QueryString query) (Some opts) =
              (case search_chain env (Boolean_opt (opt_blockExtractor opts)) (requester_of env opts)
                      query (extractors player) of
                 (Inl e, calls) \<Rightarrow> (Inl e, [Validate name, Handle name] @ calls)
               | (Inr (Some r), calls) \<Rightarrow> (Inr r, [Validate name, Handle name] @ calls)
               | (Inr None, calls) \<Rightarrow>
                   (search_builtin env player (requester_of env opts) (EngineName name) query,
                    [Validate name, Handle name] @ calls)))"
  using assms
  by (auto simp add: search_def search_named_def Let_def or_else_def requester_of_def
      data_with_items_def split: prod.splits sum.splits option.splits)

theorem search_named_extractor_witness:
  "opt_searchEngine (search_options (Some (EngineName ''R2'')) None) = Some (EngineName ''R2'')
   \<and> map_of (extractors (player_with [(''R0'', R0), (''R2'', R2)])) ''R2'' = Some R2
   \<and> validate R2 ''q'' \<and> handle R2 ''q'' = Inr (Some two_items) \<and> ex_data two_items \<noteq> []
   \<and> search env_offline (player_with [(''R0'', R0), (''R2'', R2)]) (QueryString ''q'')
        (Some (search_options (Some (EngineName ''R2'')) None)) =
       (Inr (extractor_result env_offline None two_items), [Validate ''R2'', Handle ''R2''])
   \<and> opt_searchEngine (search_options (Some (EngineName ''R0'')) None) = Some (EngineName ''R0'')
   \<and> map_of (extractors (player_with [(''R0'', R0), (''R2'', R2)])) ''R0'' = Some R0
   \<and> \<not> validate R0 ''q''
   \<and> search env_offline (player_with [(''R0'', R0), (''R2'', R2)]) (QueryString ''q'')
        (Some (search_options (Some (EngineName ''R0'')) None)) =
       (Inr no_result, [Validate ''R0''])"
proof -
  have a: "opt_searchEngine (search_options (Some (EngineName ''R2'')) None) = Some (EngineName ''R2'')"
    by (simp add: search_options_def)
  have b: "map_of (extractors (player_with [(''R0'', R0), (''R2'', R2)])) ''R2'' = Some R2"
    by (simp add: player_with_def)
  have c: "opt_searchEngine (search_options (Some (EngineName ''R0'')) None) = Some (EngineName ''R0'')"
    by (simp add: search_options_def)
  have d: "map_of (extractors (player_with [(''R0'', R0), (''R2'', R2)])) ''R0'' = Some R0"
    by (simp add: player_with_def)
  have e: "validate R2 ''q''" "handle R2 ''q'' = Inr (Some two_items)" "ex_data two_items \<noteq> []"
    "\<not> validate R0 ''q''"
    by (simp_all add: R2_def R0_def two_items_def)
  show ?thesis
    using a b c d e
      search_named_extractor [OF a b, where query = "''q''" and data = two_items and env = env_offline]
      search_named_extractor [OF c d, where query = "''q''" and data = two_items and env = env_offline]
    by (simp add: requester_of_def search_options_def env_offline_def)
qed

lemma search_R1_then_R2:
  "search env_offline (player_with [(''R1'', R1), (''R2'', R2)]) (QueryString ''q'')
     (Some (search_options (Some (EngineName ''R1'')) None)) =
   (Inr (extractor_result env_offline None two_items),
    [Validate ''R1'', Handle ''R1'', Validate ''R1'', Handle ''R1'',
     Validate ''R2'', Handle ''R2''])"
  by (simp add: search_def search_named_def player_with_def search_options_def R1_def R2_def
      data_with_items_def two_items_def or_else_def Boolean_opt_def env_offline_def Let_def)

text \<open>
  C4, counterexample to the claim as stated: R1 and R2 are registered, the search
  engine names R1, R1 takes the query and finds nothing. The search then consults
  R2 and returns the two tracks of R2.
\<close>

theorem search_named_empty_counterexample:
  "map_of (extractors (player_with [(''R1'', R1), (''R2'', R2)])) ''R1'' = Some R1
   \<and> validate R1 ''q''
   \<and> handle R1 ''q'' = Inr (Some \<lparr>ex_playlist = None, ex_data = []\<rparr>)
   \<and> Handle ''R2'' \<in> set (snd (search env_offline (player_with [(''R1'', R1), (''R2'', R2)])
        (QueryString ''q'') (Some (search_options (Some (EngineName ''R1'')) None))))
   \<and> fst (search env_offline (player_with [(''R1'', R1), (''R2'', R2)])
        (QueryString ''q'') (Some (search_options (Some (EngineName ''R1'')) None)))
       = Inr (extractor_result env_offline None two_items)
   \<and> length (tracks (extractor_result env_offline None two_items)) = 2"
  by (simp add: search_R1_then_R2)
     (simp add: player_with_def R1_def extractor_result_def two_items_def)

text \<open>
  C5, as the code has it: with \<open>blockExtractor\<close> set, the loop over the registered
  extractors is left at the top of its first round. The only calls a search makes
  are those of the block for a named registered extractor; a search whose engine
  is a query type, or a name that is not registered, calls no extractor at all
  and returns what the built-in sources give.
\<close>

theorem search_blocked:
  assumes "Boolean_opt (opt_blockExtractor opts)"
  shows "snd (search env player (QueryString query) (Some opts)) =
           snd (search_named env (extractors player) (requester_of env opts) (engine_of opts) query)
       \<and> (map_of (extractors player) name = None \<and> engine_of opts = EngineName name
            \<or> engine_of opts = EngineType qt \<longrightarrow>
          search env player (QueryString query) (Some opts) =
            (search_builtin env player (requester_of env opts) (engine_of opts) query, []))"
  using assms
  by (auto simp add: search_def Let_def search_chain_blocked requester_of_def engine_of_def
      search_named_def split: prod.splits sum.splits option.splits)

theorem search_blocked_witness:
  "Boolean_opt (opt_blockExtractor (search_options None (Some True)))
   \<and> engine_of (search_options None (Some True)) = EngineType AUTO
   \<and> search env_offline (player_with [(''R2'', R2)]) (QueryString ''q'')
        (Some (search_options None (Some True))) =
       (search_builtin env_offline (player_with [(''R2'', R2)]) None (EngineType AUTO) ''q'', [])"
proof -
  have a: "Boolean_opt (opt_blockExtractor (search_options None (Some True)))"
    by (simp add: search_options_def Boolean_opt_def)
  have b: "engine_of (search_options None (Some True)) = EngineType AUTO"
    by (simp add: search_options_def engine_of_def or_else_def)
  show ?thesis
    using a b search_blocked [OF a, where player = "player_with [(''R2'', R2)]" and name = "[]"
      and qt = AUTO and env = env_offline and query = "''q''"]
    by (simp add: requester_of_def search_options_def env_offline_def)
qed

text \<open>
  C5, counterexample to the claim as stated: R2 is registered, takes the query
  and would find two items; with \<open>blockExtractor\<close> set the search calls nothing
  (neither the check nor the lookup of R2) and returns the empty result of the
  built-in \<open>default\<close>.
\<close>

theorem search_blocked_counterexample:
  "Boolean_opt (opt_blockExtractor (search_options None (Some True)))
   \<and> validate R2 ''q'' \<and> handle R2 ''q'' = Inr (Some two_items)
   \<and> search env_offline (player_with [(''R2'', R2)]) (QueryString ''q'')
        (Some (search_options None (Some True))) = (Inr no_result, [])"
  by (simp add: search_def search_named_def search_builtin_def player_with_def
      search_options_def R2_def or_else_def Boolean_opt_def env_offline_def Let_def)

lemma search_reaches_builtin:
  assumes "registered_give_nothing env player opts query"
  shows "fst (search env player (QueryString query) (Some opts)) =
           search_builtin env player (requester_of env opts) (engine_of opts) query"
  using assms
  by (auto simp add: registered_give_nothing_def search_def Let_def requester_of_def
      engine_of_def split: prod.splits sum.splits option.splits)

lemma no_extractors_give_nothing:
  "extractors player = [] \<Longrightarrow> registered_give_nothing env player opts query"
  by (simp add: registered_give_nothing_def search_named_def split: searchEngine.splits)

lemma search_builtin_switch:
  assumes "switch_type env opts query = Some qt"
  shows "search_builtin env player requester (engine_of opts) query =
           search_builtin env player requester (EngineType qt) query
         \<or> qt = AUTO"
  using assms
  by (auto simp add: switch_type_def search_builtin_def Let_def
      split: searchEngine.splits if_splits)

lemma search_builtin_AUTO:
  assumes "switch_type env opts query = Some AUTO"
  shows "search_builtin env player requester (engine_of opts) query = Inr no_result"
  using assms
  by (auto simp add: switch_type_def search_builtin_def Let_def
      split: searchEngine.splits if_splits)

lemma catch_noop_rejects: "isl r \<Longrightarrow> catch_noop r = None"
  by (cases r) (simp_all add: catch_noop_def)

lemma YOUTUBE_VIDEO_absorbs:
  "isl (ytdlGetInfo env query ytdl) \<Longrightarrow> search_YOUTUBE_VIDEO env ytdl requester query = Inr no_result"
  by (simp add: search_YOUTUBE_VIDEO_def catch_noop_rejects)

lemma YOUTUBE_SEARCH_absorbs:
  "isl (YouTube_search env query) \<Longrightarrow> search_YOUTUBE_SEARCH env requester query = Inr no_result"
  by (simp add: search_YOUTUBE_SEARCH_def catch_noop_rejects)

lemma SOUNDCLOUD_absorbs:
  "soundcloud_rejects env query \<Longrightarrow> search_SOUNDCLOUD env requester query = Inr no_result"
  by (cases "soundcloud_search env query")
     (auto simp add: soundcloud_rejects_def search_SOUNDCLOUD_def soundcloud_track_def
        catch_noop_rejects no_result_def Let_def split: if_splits)

lemma SPOTIFY_SONG_absorbs:
  "Util_getFetch env = Inr () \<Longrightarrow> isl (Spotify_getData_song env query)
     \<Longrightarrow> search_SPOTIFY_SONG env requester query = Inr no_result"
  by (simp add: search_SPOTIFY_SONG_def catch_noop_rejects)

lemma SPOTIFY_LIST_absorbs:
  "Util_getFetch env = Inr () \<Longrightarrow> isl (Spotify_getData_list env query)
     \<Longrightarrow> search_SPOTIFY_LIST env requester query = Inr no_result"
  by (simp add: search_SPOTIFY_LIST_def catch_noop_rejects)

lemma SOUNDCLOUD_PLAYLIST_absorbs:
  "isl (soundcloud_getPlaylist env query)
     \<Longrightarrow> search_SOUNDCLOUD_PLAYLIST env requester query = Inr no_result"
  by (simp add: search_SOUNDCLOUD_PLAYLIST_def catch_noop_rejects)

lemma YOUTUBE_PLAYLIST_absorbs:
  "isl (YouTube_getPlaylist env query)
     \<Longrightarrow> search_YOUTUBE_PLAYLIST env requester query = Inr no_result"
  by (simp add: search_YOUTUBE_PLAYLIST_def catch_noop_rejects)

lemma search_builtin_absorbs:
  assumes "Util_getFetch env = Inr ()" and "lookup_rejects env player qt query"
  shows "search_builtin env player requester (EngineType qt) query = Inr no_result"
  using assms
  by (cases qt)
     (simp_all add: search_builtin_def lookup_rejects_def YOUTUBE_VIDEO_absorbs
        YOUTUBE_SEARCH_absorbs SOUNDCLOUD_absorbs SPOTIFY_SONG_absorbs SPOTIFY_LIST_absorbs
        SOUNDCLOUD_PLAYLIST_absorbs YOUTUBE_PLAYLIST_absorbs)

text \<open>What a branch throws is a TypeError, never a rejection.\<close>

lemma map_throwing_Inl:
  "map_throwing f xs = Inl e \<Longrightarrow> \<exists>x \<in> set xs. f x = Inl e"
  by (induction xs) (auto split: sum.splits)

lemma YOUTUBE_VIDEO_no_rejection:
  "search_YOUTUBE_VIDEO env ytdl requester query \<noteq> Inl (Rejected reason)"
  by (simp add: search_YOUTUBE_VIDEO_def split: option.splits)

lemma YOUTUBE_SEARCH_no_rejection:
  "search_YOUTUBE_SEARCH env requester query \<noteq> Inl (Rejected reason)"
  by (simp add: search_YOUTUBE_SEARCH_def split: option.splits)

lemma SOUNDCLOUD_no_rejection:
  "search_SOUNDCLOUD env requester query \<noteq> Inl (Rejected reason)"
  by (simp add: search_SOUNDCLOUD_def Let_def split: option.splits)

lemma SPOTIFY_SONG_no_rejection:
  "Util_getFetch env = Inr () \<Longrightarrow> search_SPOTIFY_SONG env requester query \<noteq> Inl (Rejected reason)"
  by (simp add: search_SPOTIFY_SONG_def split: option.splits)

lemma SPOTIFY_LIST_no_rejection:
  assumes "Util_getFetch env = Inr ()"
  shows "search_SPOTIFY_LIST env requester query \<noteq> Inl (Rejected reason)"
proof
  assume r: "search_SPOTIFY_LIST env requester query = Inl (Rejected reason)"
  then obtain sp where sp: "catch_noop (Spotify_getData_list env query) = Some sp"
    using assms by (auto simp add: search_SPOTIFY_LIST_def split: option.splits)
  show False
  proof (cases "spotify_list_author sp")
    case (Inl e)
    then have "e = TypeError undefined_index"
      by (auto simp add: spotify_list_author_def split: if_splits option.splits)
    with r sp Inl assms show False by (simp add: search_SPOTIFY_LIST_def)
  next
    case (Inr a)
    obtain an au where a: "a = (an, au)" by (cases a)
    from r sp Inr a assms obtain pl where
      "spl_type sp \<noteq> Some ''playlist''"
      "map_throwing (spotify_album_track env requester query sp pl) (spl_items sp)
         = Inl (Rejected reason)"
      by (auto simp add: search_SPOTIFY_LIST_def Let_def split: if_splits sum.splits)
    then obtain m where "spotify_album_track env requester query sp pl m = Inl (Rejected reason)"
      by (auto dest: map_throwing_Inl)
    then show False by (simp add: spotify_album_track_def split: option.splits)
  qed
qed

lemma SOUNDCLOUD_PLAYLIST_no_rejection:
  "search_SOUNDCLOUD_PLAYLIST env requester query \<noteq> Inl (Rejected reason)"
  by (simp add: search_SOUNDCLOUD_PLAYLIST_def Let_def split: option.splits)

lemma YOUTUBE_PLAYLIST_no_rejection:
  "search_YOUTUBE_PLAYLIST env requester query \<noteq> Inl (Rejected reason)"
proof
  assume r: "search_YOUTUBE_PLAYLIST env requester query = Inl (Rejected reason)"
  then obtain pl vs where
    "map_throwing (youtube_playlist_track requester pl) vs = Inl (Rejected reason)"
    by (auto simp add: search_YOUTUBE_PLAYLIST_def Let_def split: option.splits sum.splits)
  then obtain v where "youtube_playlist_track requester pl v = Inl (Rejected reason)"
    by (auto dest: map_throwing_Inl)
  then show False by (simp add: youtube_playlist_track_def split: option.splits)
qed

lemma search_builtin_no_rejection:
  assumes "Util_getFetch env = Inr ()"
  shows "search_builtin env player requester engine query \<noteq> Inl (Rejected reason)"
proof (cases "if engine = EngineType AUTO then EngineType (QueryResolver_resolve env query)
              else engine")
  case (EngineName name)
  then show ?thesis by (simp add: search_builtin_def)
next
  case (EngineType qt)
  then show ?thesis
    using assms
    by (cases qt)
       (simp_all add: search_builtin_def no_result_def YOUTUBE_VIDEO_no_rejection
          YOUTUBE_SEARCH_no_rejection SOUNDCLOUD_no_rejection SPOTIFY_SONG_no_rejection
          SPOTIFY_LIST_no_rejection SOUNDCLOUD_PLAYLIST_no_rejection
          YOUTUBE_PLAYLIST_no_rejection)
qed

text \<open>
  C7: the registered extractors give nothing, so that the search reaches the
  built-in sources, and \<open>Util.getFetch\<close>, which hands out the fetch function for
  the Spotify library, resolves. If the network lookup of the branch that the
  query type selects rejects, \<open>search\<close> returns the empty result; and whatever
  the lookups do, \<open>search\<close> never returns a rejection.
\<close>

theorem builtin_lookup_failure_absorbed:
  assumes "registered_give_nothing env player opts query"
    and "Util_getFetch env = Inr ()"
  shows "(switch_type env opts query = Some qt \<and> lookup_rejects env player qt query \<longrightarrow>
            fst (search env player (QueryString query) (Some opts)) = Inr no_result)
       \<and> (\<forall>reason. fst (search env player (QueryString query) (Some opts))
                      \<noteq> Inl (Rejected reason))"
proof (intro conjI impI allI)
  assume h: "switch_type env opts query = Some qt \<and> lookup_rejects env player qt query"
  then have "qt \<noteq> AUTO" by (auto simp add: lookup_rejects_def)
  with h have "search_builtin env player (requester_of env opts) (engine_of opts) query =
      search_builtin env player (requester_of env opts) (EngineType qt) query"
    using search_builtin_switch [of env opts query qt player "requester_of env opts"] by simp
  with h show "fst (search env player (QueryString query) (Some opts)) = Inr no_result"
    by (simp add: search_reaches_builtin [OF assms(1)] search_builtin_absorbs [OF assms(2)])
next
  fix reason
  show "fst (search env player (QueryString query) (Some opts)) \<noteq> Inl (Rejected reason)"
    by (simp add: search_reaches_builtin [OF assms(1)] search_builtin_no_rejection [OF assms(2)])
qed

theorem builtin_lookup_failure_absorbed_witness:
  "registered_give_nothing env_offline (player_with []) 
      (search_options (Some (EngineType YOUTUBE_PLAYLIST)) None) ''q''
   \<and> Util_getFetch env_offline = Inr ()
   \<and> switch_type env_offline (search_options (Some (EngineType YOUTUBE_PLAYLIST)) None) ''q''
       = Some YOUTUBE_PLAYLIST
   \<and> lookup_rejects env_offline (player_with []) YOUTUBE_PLAYLIST ''q''
   \<and> fst (search env_offline (player_with []) (QueryString ''q'')
        (Some (search_options (Some (EngineType YOUTUBE_PLAYLIST)) None))) = Inr no_result"
proof -
  have a: "registered_give_nothing env_offline (player_with [])
      (search_options (Some (EngineType YOUTUBE_PLAYLIST)) None) ''q''"
    by (simp add: no_extractors_give_nothing player_with_def)
  have b: "Util_getFetch env_offline = Inr ()"
    by (simp add: env_offline_def)
  have c: "switch_type env_offline (search_options (Some (EngineType YOUTUBE_PLAYLIST)) None) ''q''
       = Some YOUTUBE_PLAYLIST"
    by (simp add: switch_type_def engine_of_def search_options_def or_else_def)
  have d: "lookup_rejects env_offline (player_with []) YOUTUBE_PLAYLIST ''q''"
    by (simp add: lookup_rejects_def env_offline_def)
  show ?thesis
    using a b c d builtin_lookup_failure_absorbed [OF a b, where qt = YOUTUBE_PLAYLIST]
    by simp
qed
end
